theory Spec2Isabelle
  imports Complex_Main "HOL-Library.Word"
begin

section \<open>Pixels, legend keys and the colour table\<close>

text \<open>
  The repository holds two variants of one class \<open>ImageTracker\<close>: the whole-field
  averaging tracker of \<^verbatim>\<open>image-tracker.js\<close> and the single-target tracker whose
  JavaScript follows the PHP in \<^verbatim>\<open>saveSettings.php\<close>. Functions that are the same text
  in both files are modelled once; where the two differ the averaging one carries the
  suffix \<open>_avg\<close> and the single-target one the suffix \<open>_sel\<close>.

  Canvas pixel data is a \<^verbatim>\<open>Uint8ClampedArray\<close>: every component is a byte. All
  arithmetic on components happens in JavaScript numbers, so a byte is read with
  \<open>unat\<close> before it is added, subtracted or compared. JavaScript numbers are modelled
  as \<open>real\<close> (\<open>nat\<close> and \<open>int\<close> where the code only counts or indexes); the rounding
  of IEEE doubles is outside the model.
\<close>

type_synonym byte = "8 word"
type_synonym rgb = "byte \<times> byte \<times> byte"
type_synonym rgba = "byte \<times> byte \<times> byte \<times> byte"

text \<open>
  A legend key is the string \<^verbatim>\<open>#rrggbb\<close> that \<open>parseLegend\<close> builds from three bytes
  with \<^verbatim>\<open>toString(16).padStart(2, '0')\<close>, and that \<open>findClosestLegendColor\<close> reads
  back with \<^verbatim>\<open>parseInt(hex.substring(i, i + 2), 16)\<close>.
\<close>

definition hexDigit :: "nat \<Rightarrow> char" where
  "hexDigit n = ''0123456789abcdef'' ! n"

definition toString16 :: "byte \<Rightarrow> string" where
  "toString16 v =
     (if unat v < 16 then [hexDigit (unat v)]
      else [hexDigit (unat v div 16), hexDigit (unat v mod 16)])"

definition padStart2 :: "string \<Rightarrow> string" where
  "padStart2 s = replicate (2 - length s) (CHR ''0'') @ s"

definition toHex :: "rgb \<Rightarrow> string" where
  "toHex c = (case c of (r, g, b) \<Rightarrow>
     CHR ''#'' # padStart2 (toString16 r) @ padStart2 (toString16 g) @ padStart2 (toString16 b))"

definition hexVal :: "char \<Rightarrow> nat option" where
  "hexVal c = map_of (zip ''0123456789abcdef'' [0 ..< 16]) c"

text \<open>\<^verbatim>\<open>parseInt(s, 16)\<close> on a string of lower-case hex digits; \<open>None\<close> is \<^verbatim>\<open>NaN\<close>.\<close>

definition parseInt16 :: "string \<Rightarrow> nat option" where
  "parseInt16 s =
     (let ds = takeWhile (\<lambda>c. hexVal c \<noteq> None) s
      in if ds = [] then None else Some (foldl (\<lambda>a c. 16 * a + the (hexVal c)) 0 ds))"

definition substring :: "string \<Rightarrow> nat \<Rightarrow> nat \<Rightarrow> string" where
  "substring s i j = take (j - i) (drop i s)"

definition parseHex :: "string \<Rightarrow> (nat \<times> nat \<times> nat) option" where
  "parseHex hex =
     (case (parseInt16 (substring hex 1 3), parseInt16 (substring hex 3 5),
            parseInt16 (substring hex 5 7)) of
        (Some r_leg, Some g_leg, Some b_leg) \<Rightarrow> Some (r_leg, g_leg, b_leg)
      | _ \<Rightarrow> None)"

text \<open>
  \<open>legendColorMap\<close> is \<^verbatim>\<open>null\<close> or a JavaScript \<^verbatim>\<open>Map\<close> from key to rank, which
  iterates in insertion order: an association list, under \<open>option\<close>. Every key the code
  ever stores is \<open>toHex\<close> of three bytes, and \<open>toHex\<close> and \<open>parseHex\<close> are inverse to each
  other (lemmas \<open>parseHex_toHex\<close> and \<open>toHex_inj\<close> below), so the table keeps the three
  bytes of a key and the string is built only where the code compares it with a string
  that comes from outside (\<open>selectedColor\<close>).
\<close>

type_synonym colorTable = "(rgb \<times> nat) list"

subsection \<open>\<open>color_distance\<close> and \<open>findClosestLegendColor\<close>\<close>

definition color_distance :: "rgb \<Rightarrow> rgb \<Rightarrow> real" where
  "color_distance rgb1 rgb2 =
     (case (rgb1, rgb2) of ((r1, g1, b1), (r2, g2, b2)) \<Rightarrow>
        (let r_dist = (real (unat r1) - real (unat r2)) ^ 2;
             g_dist = (real (unat g1) - real (unat g2)) ^ 2;
             b_dist = (real (unat b1) - real (unat b2)) ^ 2
         in sqrt (r_dist + g_dist + b_dist)))"

text \<open>
  A running minimum starts at \<^verbatim>\<open>Infinity\<close>: \<open>None\<close> below. \<open>belowInf d m\<close> is the
  comparison \<^verbatim>\<open>d < m\<close> of a finite number with such a bound, \<open>infBelow m d\<close> the
  comparison \<^verbatim>\<open>m < d\<close>.
\<close>

definition belowInf :: "'a::linorder \<Rightarrow> 'a option \<Rightarrow> bool" where
  "belowInf d m = (case m of None \<Rightarrow> True | Some e \<Rightarrow> d < e)"

definition infBelow :: "'a::linorder option \<Rightarrow> 'a \<Rightarrow> bool" where
  "infBelow m d = (case m of None \<Rightarrow> False | Some e \<Rightarrow> e < d)"

text \<open>The \<^verbatim>\<open>for (const hex of this.legendColorMap.keys())\<close> loop.\<close>

fun closestLoop :: "rgb \<Rightarrow> rgb list \<Rightarrow> real option \<times> rgb option \<Rightarrow> real option \<times> rgb option" where
  "closestLoop p [] acc = acc"
| "closestLoop p (hex # keys) (minDistance, closestColor) =
     (let distance = color_distance p hex
      in if belowInf distance minDistance
         then closestLoop p keys (Some distance, Some hex)
         else closestLoop p keys (minDistance, closestColor))"

definition findClosestLegendColor :: "colorTable option \<Rightarrow> rgb \<Rightarrow> rgb option" where
  "findClosestLegendColor legendColorMap p =
     (case legendColorMap of
        None \<Rightarrow> None
      | Some m \<Rightarrow>
          if length m = 0 then None
          else (case closestLoop p (map fst m) (None, None) of
                  (minDistance, closestColor) \<Rightarrow>
                    if infBelow minDistance 100 then closestColor else None))"

text \<open>
  The rank of a pixel, as \<open>analyzeFrame\<close> reads it:
  \<^verbatim>\<open>this.legendColorMap.get(this.findClosestLegendColor(r, g, b))\<close>, and nothing when
  the classifier answers \<^verbatim>\<open>null\<close>.
\<close>

definition legendGet :: "colorTable option \<Rightarrow> rgb \<Rightarrow> nat option" where
  "legendGet legendColorMap hex = (case legendColorMap of None \<Rightarrow> None | Some m \<Rightarrow> map_of m hex)"

definition classify :: "colorTable option \<Rightarrow> rgb \<Rightarrow> nat option" where
  "classify legendColorMap p =
     (case findClosestLegendColor legendColorMap p of
        None \<Rightarrow> None
      | Some hex \<Rightarrow> legendGet legendColorMap hex)"

section \<open>Images\<close>

text \<open>
  A decoded image: its size and its pixels. The canvas and the image loader belong to
  the browser; the model starts from what they hand to the tracker. \<open>getImageData\<close> is
  \<^verbatim>\<open>ctx.getImageData(x, y, 1, 1).data\<close>, transparent black outside the canvas;
  \<open>imageData\<close> is \<^verbatim>\<open>ctx.getImageData(0, 0, width, height).data\<close>, the flat array of
  \<open>4 * width * height\<close> bytes in row-major order. An image that fires \<open>onload\<close> has
  a positive width and height; on a canvas of width or height 0 the browser's
  whole-canvas \<open>getImageData\<close> raises instead of returning an empty array, and that
  case is not part of the model.
\<close>

record image =
  width :: nat
  height :: nat
  pixelAt :: "nat \<Rightarrow> nat \<Rightarrow> rgba"

definition getImageData :: "image \<Rightarrow> nat \<Rightarrow> nat \<Rightarrow> rgba" where
  "getImageData img x y = (if x < width img \<and> y < height img then pixelAt img x y else (0, 0, 0, 0))"

definition component :: "rgba \<Rightarrow> nat \<Rightarrow> byte" where
  "component px k = (case px of (r, g, b, a) \<Rightarrow> [r, g, b, a] ! k)"

definition imageData :: "image \<Rightarrow> byte list" where
  "imageData img =
     map (\<lambda>i. component (pixelAt img ((i div 4) mod width img) ((i div 4) div width img)) (i mod 4))
       [0 ..< 4 * (width img * height img)]"

text \<open>An array read \<^verbatim>\<open>a[i]\<close>: \<open>None\<close> is \<^verbatim>\<open>undefined\<close>, the value past the end.\<close>

definition arrayRead :: "'a list \<Rightarrow> nat \<Rightarrow> 'a option" where
  "arrayRead a i = (if i < length a then Some (a ! i) else None)"

section \<open>The legend extractor: \<open>parseLegend\<close>\<close>

text \<open>
  \<^verbatim>\<open>map.set(k, v)\<close> on a JavaScript Map: the value of an existing key is replaced
  where it stands, a new key goes to the end. \<open>newMap\<close> is \<^verbatim>\<open>new Map(pairs)\<close>.
\<close>

fun mapSet :: "'k \<Rightarrow> 'v \<Rightarrow> ('k \<times> 'v) list \<Rightarrow> ('k \<times> 'v) list" where
  "mapSet k v [] = [(k, v)]"
| "mapSet k v (e # es) = (if fst e = k then (k, v) # es else e # mapSet k v es)"

definition newMap :: "('k \<times> 'v) list \<Rightarrow> ('k \<times> 'v) list" where
  "newMap pairs = fold (\<lambda>e m. mapSet (fst e) (snd e) m) pairs []"

text \<open>\<^verbatim>\<open>colors.map((color, index) => [color, index + 1])\<close>\<close>

definition withRanks :: "rgb list \<Rightarrow> (rgb \<times> nat) list" where
  "withRanks colors = map (\<lambda>index. (colors ! index, index + 1)) [0 ..< length colors]"

text \<open>
  The averaging variant scans the centre column: one iteration of
  \<^verbatim>\<open>for (let y = 0; y < img.height; y++)\<close>.
\<close>

definition legendStep_avg :: "image \<Rightarrow> nat \<Rightarrow> rgb list \<Rightarrow> rgb list" where
  "legendStep_avg img y colors =
     (case getImageData img (width img div 2) y of (r, g, b, a) \<Rightarrow>
        if unat a > 200 \<and> unat r + unat g + unat b < 700
        then (let hex = (r, g, b) in if hex \<notin> set colors then colors @ [hex] else colors)
        else colors)"

definition legendColors_avg :: "image \<Rightarrow> rgb list" where
  "legendColors_avg img = fold (legendStep_avg img) [0 ..< height img] []"

text \<open>
  The single-target variant scans the band from \<^verbatim>\<open>Math.floor(img.width * 0.25)\<close> to
  \<^verbatim>\<open>Math.floor(img.width * 0.75)\<close>; both products are exact in doubles. The inner
  \<^verbatim>\<open>for\<close> loop leaves the row at its \<^verbatim>\<open>break\<close>, after the first colour that is new.
\<close>

definition isGrey :: "byte \<Rightarrow> byte \<Rightarrow> byte \<Rightarrow> bool" where
  "isGrey r g b = (\<bar>int (unat r) - int (unat g)\<bar> < 10 \<and> \<bar>int (unat g) - int (unat b)\<bar> < 10)"

fun rowScan_sel :: "image \<Rightarrow> nat \<Rightarrow> nat list \<Rightarrow> rgb list \<times> (rgb \<times> nat) list \<Rightarrow> rgb list \<times> (rgb \<times> nat) list" where
  "rowScan_sel img y [] st = st"
| "rowScan_sel img y (x # xs) (colors, colorPositions) =
     (case getImageData img x y of (r, g, b, a) \<Rightarrow>
        if unat a > 200 \<and> unat r + unat g + unat b < 700 \<and> \<not> isGrey r g b
        then (let hex = (r, g, b)
              in if map_of colorPositions hex = None
                 then (colors @ [hex], mapSet hex y colorPositions)
                 else rowScan_sel img y xs (colors, colorPositions))
        else rowScan_sel img y xs (colors, colorPositions))"

definition legendScan_sel :: "image \<Rightarrow> rgb list \<times> (rgb \<times> nat) list" where
  "legendScan_sel img =
     (let startX = width img div 4; endX = (3 * width img) div 4
      in fold (\<lambda>y. rowScan_sel img y [startX ..< endX]) [0 ..< height img] ([], []))"

text \<open>
  \<^verbatim>\<open>colors.sort((a, b) => colorPositions.get(a) - colorPositions.get(b))\<close>: the sort
  of an array is stable, as the insertion sort \<open>sort_key\<close> is.
\<close>

definition legendColors_sel :: "image \<Rightarrow> rgb list" where
  "legendColors_sel img =
     (case legendScan_sel img of (colors, colorPositions) \<Rightarrow>
        sort_key (\<lambda>c. the (map_of colorPositions c)) colors)"

section \<open>The tracker\<close>

type_synonym cellGrid = "real list list"

record frameRecord =
  timestamp :: string
  grid :: cellGrid

text \<open>
  What \<^verbatim>\<open>resultsElement.textContent\<close> is set to: \<^verbatim>\<open>"--"\<close>,
  \<^verbatim>\<open>"Warte auf Daten..."\<close>, \<^verbatim>\<open>"Stationaer"\<close> (with a-umlaut), \<^verbatim>\<open>"Bewegung unklar"\<close>,
  \<^verbatim>\<open>"Keine Zieldaten am Fadenkreuz"\<close>, or \<^verbatim>\<open>"~ <speed> km/h"\<close>.
\<close>

datatype resultText = Dashes | WarteAufDaten | Stationaer | BewegungUnklar | KeineZieldaten | Kmh string

datatype logLine =
  Initialized | AnalysisEnabled | AnalysisDisabled | ParsingLegend | NoColorsExtracted
  | LegendParsed colorTable | LegendLoadFailed | CalculatedSpeed string

text \<open>
  The fields of an \<open>ImageTracker\<close>. \<open>resultsElement\<close> is \<open>None\<close> when the tracker was
  built without an element to write to, and holds the element's text otherwise.
  \<open>console\<close> collects the lines written with \<^verbatim>\<open>console.log\<close>, \<^verbatim>\<open>console.warn\<close>
  and \<^verbatim>\<open>console.error\<close>. \<open>selectedColor\<close> exists in the single-target variant only.
\<close>

record tracker =
  legendColorMap :: "colorTable option"
  gridData :: "frameRecord list"
  isEnabled :: bool
  selectedColor :: "string option"
  resultsElement :: "resultText option"
  console :: "logLine list"

definition GRID_SIZE :: nat where
  "GRID_SIZE = 10"

definition constructor :: "resultText option \<Rightarrow> tracker" where
  "constructor el =
     \<lparr>legendColorMap = None, gridData = [], isEnabled = False, selectedColor = None,
      resultsElement = el, console = [Initialized]\<rparr>"

definition setText :: "resultText \<Rightarrow> tracker \<Rightarrow> tracker" where
  "setText t s = (case resultsElement s of None \<Rightarrow> s | Some old \<Rightarrow> s\<lparr>resultsElement := Some t\<rparr>)"

definition consoleLog :: "logLine \<Rightarrow> tracker \<Rightarrow> tracker" where
  "consoleLog l s = s\<lparr>console := console s @ [l]\<rparr>"

definition setSelectedColor :: "string option \<Rightarrow> tracker \<Rightarrow> tracker" where
  "setSelectedColor hexColor s = setText WarteAufDaten (s\<lparr>selectedColor := hexColor, gridData := []\<rparr>)"

definition setAnalysisEnabled :: "bool \<Rightarrow> tracker \<Rightarrow> tracker" where
  "setAnalysisEnabled enabled s =
     (let s1 = s\<lparr>isEnabled := enabled\<rparr>
      in if enabled then consoleLog AnalysisEnabled s1
         else setText Dashes ((consoleLog AnalysisDisabled s1)\<lparr>gridData := []\<rparr>))"

text \<open>
  \<open>parseLegend\<close> returns a promise: \<open>Inr\<close> is the value it resolves with, \<open>Inl\<close> the
  reason it rejects with. Its argument is what loading the URL gave: \<open>None\<close> when
  \<^verbatim>\<open>img.onerror\<close> fires, the decoded image when \<^verbatim>\<open>img.onload\<close> does. The field
  \<open>legendColorMap\<close> is assigned before the size of the new map is looked at.
\<close>

datatype legendError = NoColorsFound | ImageLoadFailed

definition finishLegend :: "tracker \<Rightarrow> rgb list \<Rightarrow> tracker \<times> (legendError + colorTable)" where
  "finishLegend s colors =
     (let m = newMap (withRanks colors); s1 = s\<lparr>legendColorMap := Some m\<rparr>
      in if length m = 0 then (consoleLog NoColorsExtracted s1, Inl NoColorsFound)
         else (consoleLog (LegendParsed m) s1, Inr m))"

definition parseLegend_avg :: "tracker \<Rightarrow> image option \<Rightarrow> tracker \<times> (legendError + colorTable)" where
  "parseLegend_avg s loaded =
     (let s0 = consoleLog ParsingLegend s
      in case loaded of
           None \<Rightarrow> (consoleLog LegendLoadFailed s0, Inl ImageLoadFailed)
         | Some img \<Rightarrow> finishLegend s0 (legendColors_avg img))"

definition parseLegend_sel :: "tracker \<Rightarrow> image option \<Rightarrow> tracker \<times> (legendError + colorTable)" where
  "parseLegend_sel s loaded =
     (let s0 = consoleLog ParsingLegend s
      in case loaded of
           None \<Rightarrow> (consoleLog LegendLoadFailed s0, Inl ImageLoadFailed)
         | Some img \<Rightarrow> finishLegend s0 (legendColors_sel img))"

section \<open>The grid rasterizer\<close>

text \<open>
  One iteration of the two innermost loops of \<open>analyzeFrame\<close>. The reads of
  \<^verbatim>\<open>imageData[i]\<close>, \<^verbatim>\<open>imageData[i+1]\<close> and \<^verbatim>\<open>imageData[i+2]\<close> happen only after
  \<^verbatim>\<open>imageData[i+3] > 128\<close> held, which is false for \<^verbatim>\<open>undefined\<close>: they are inside
  the array.
\<close>

definition pixelIndex :: "image \<Rightarrow> nat \<Rightarrow> nat \<Rightarrow> nat \<Rightarrow> nat \<Rightarrow> nat" where
  "pixelIndex img gridY gridX y x =
     ((gridY * GRID_SIZE + y) * width img + (gridX * GRID_SIZE + x)) * 4"

definition pixelStep_avg :: "colorTable option \<Rightarrow> image \<Rightarrow> nat \<Rightarrow> nat \<Rightarrow> nat \<Rightarrow> nat \<Rightarrow> nat \<times> nat \<Rightarrow> nat \<times> nat" where
  "pixelStep_avg lm img gridY gridX y x acc =
     (case acc of (totalIntensity, pixelCount) \<Rightarrow>
        (let d = imageData img; i = pixelIndex img gridY gridX y x
         in case arrayRead d (i + 3) of
              None \<Rightarrow> acc
            | Some a \<Rightarrow>
                if unat a > 128
                then (case findClosestLegendColor lm (d ! i, d ! (i + 1), d ! (i + 2)) of
                        None \<Rightarrow> acc
                      | Some closestColorHex \<Rightarrow>
                          (totalIntensity + the (legendGet lm closestColorHex), pixelCount + 1))
                else acc))"

definition cell_avg :: "colorTable option \<Rightarrow> image \<Rightarrow> nat \<Rightarrow> nat \<Rightarrow> real" where
  "cell_avg lm img gridY gridX =
     (case fold (\<lambda>y. fold (pixelStep_avg lm img gridY gridX y) [0 ..< GRID_SIZE]) [0 ..< GRID_SIZE] (0, 0) of
        (totalIntensity, pixelCount) \<Rightarrow>
          if real pixelCount > real (GRID_SIZE * GRID_SIZE) / 10
          then real totalIntensity / real pixelCount else 0)"

definition pixelStep_sel :: "colorTable option \<Rightarrow> string \<Rightarrow> image \<Rightarrow> nat \<Rightarrow> nat \<Rightarrow> nat \<Rightarrow> nat \<Rightarrow> nat \<Rightarrow> nat" where
  "pixelStep_sel lm sel img gridY gridX y x targetColorPixels =
     (let d = imageData img; i = pixelIndex img gridY gridX y x
      in case arrayRead d (i + 3) of
           None \<Rightarrow> targetColorPixels
         | Some a \<Rightarrow>
             if unat a > 128
             then (case findClosestLegendColor lm (d ! i, d ! (i + 1), d ! (i + 2)) of
                     None \<Rightarrow> targetColorPixels
                   | Some closestColorHex \<Rightarrow>
                       if toHex closestColorHex = sel then targetColorPixels + 1
                       else targetColorPixels)
             else targetColorPixels)"

definition cell_sel :: "colorTable option \<Rightarrow> string \<Rightarrow> image \<Rightarrow> nat \<Rightarrow> nat \<Rightarrow> real" where
  "cell_sel lm sel img gridY gridX =
     (let targetColorPixels =
            fold (\<lambda>y. fold (pixelStep_sel lm sel img gridY gridX y) [0 ..< GRID_SIZE]) [0 ..< GRID_SIZE] 0
      in if real targetColorPixels > real (GRID_SIZE * GRID_SIZE) / 10 then 1 else 0)"

text \<open>
  \<open>currentGrid\<close> after the two outer loops: \<open>rows\<close> arrays of \<open>cols\<close> cells, each cell
  written at most once and 0 where it is not written.
\<close>

definition makeGrid :: "image \<Rightarrow> (nat \<Rightarrow> nat \<Rightarrow> real) \<Rightarrow> cellGrid" where
  "makeGrid img cell =
     (let cols = width img div GRID_SIZE; rows = height img div GRID_SIZE
      in map (\<lambda>gridY. map (\<lambda>gridX. cell gridY gridX) [0 ..< cols]) [0 ..< rows])"

definition currentGrid_avg :: "colorTable option \<Rightarrow> image \<Rightarrow> cellGrid" where
  "currentGrid_avg lm img = makeGrid img (cell_avg lm img)"

definition currentGrid_sel :: "colorTable option \<Rightarrow> string \<Rightarrow> image \<Rightarrow> cellGrid" where
  "currentGrid_sel lm sel img = makeGrid img (cell_sel lm sel img)"

section \<open>The speed calculator\<close>

text \<open>
  The Leaflet map and the \<^verbatim>\<open>Date\<close> parser are supplied by the host. \<open>dateMs\<close> is
  \<^verbatim>\<open>new Date(s).getTime()\<close>, \<open>None\<close> for an invalid date.
\<close>

record 'g host =
  getCenter :: 'g
  latLngToContainerPoint :: "'g \<Rightarrow> real \<times> real"
  containerPointToLatLng :: "real \<times> real \<Rightarrow> 'g"
  distanceTo :: "'g \<Rightarrow> 'g \<Rightarrow> real"
  getSize :: "real \<times> real"
  dateMs :: "string \<Rightarrow> int option"

definition digitChar :: "nat \<Rightarrow> char" where
  "digitChar n = ''0123456789'' ! n"

function showNat :: "nat \<Rightarrow> string" where
  "showNat n = (if n < 10 then [digitChar n] else showNat (n div 10) @ [digitChar (n mod 10)])"
  by pat_completeness auto
termination
  by (relation "measure id") auto

text \<open>
  \<^verbatim>\<open>x.toFixed(1)\<close> as ECMAScript defines it below \<open>10^21\<close>: the sign is split off,
  \<open>n\<close> is the integer for which \<open>n / 10 - x\<close> is closest to zero, the larger one of two.
\<close>

definition tenths :: "real \<Rightarrow> nat" where
  "tenths x = nat \<lfloor>x * 10 + 1 / 2\<rfloor>"

definition toFixed1 :: "real \<Rightarrow> string" where
  "toFixed1 x =
     (let n = tenths \<bar>x\<bar>
      in (if x < 0 then ''-'' else '''') @ showNat (n div 10) @ ''.'' @ showNat (n mod 10))"

text \<open>\<^verbatim>\<open>(new Date(time2) - new Date(time1)) / 1000\<close>; \<open>None\<close> is \<^verbatim>\<open>NaN\<close>.\<close>

definition timeDiffSeconds :: "'g host \<Rightarrow> string \<Rightarrow> string \<Rightarrow> real option" where
  "timeDiffSeconds h time1 time2 =
     (case (dateMs h time2, dateMs h time1) of
        (Some t2, Some t1) \<Rightarrow> Some (real_of_int (t2 - t1) / 1000)
      | _ \<Rightarrow> None)"

text \<open>
  The part both variants of \<open>calculateSpeed\<close> share, from \<^verbatim>\<open>this.map.getCenter()\<close>
  on. With a \<^verbatim>\<open>NaN\<close> time difference the comparison \<^verbatim>\<open><= 0\<close> is false and the
  text written is \<^verbatim>\<open>"~ NaN km/h"\<close>.
\<close>

definition realWorldDistanceMeters :: "'g host \<Rightarrow> real \<Rightarrow> real \<Rightarrow> real" where
  "realWorldDistanceMeters h dxPixels dyPixels =
     (let mapCenter = getCenter h;
          point1 = latLngToContainerPoint h mapCenter;
          point2 = (fst point1 + dxPixels, snd point1 + dyPixels);
          newLatLng = containerPointToLatLng h point2
      in distanceTo h mapCenter newLatLng)"

definition reportSpeed :: "string \<Rightarrow> tracker \<Rightarrow> tracker" where
  "reportSpeed shown s = consoleLog (CalculatedSpeed shown) (setText (Kmh shown) s)"

definition speedFromPixels :: "'g host \<Rightarrow> tracker \<Rightarrow> real \<Rightarrow> real \<Rightarrow> string \<Rightarrow> string \<Rightarrow> tracker" where
  "speedFromPixels h s dxPixels dyPixels time1 time2 =
     (let meters = realWorldDistanceMeters h dxPixels dyPixels
      in case timeDiffSeconds h time1 time2 of
           None \<Rightarrow> reportSpeed ''NaN'' s
         | Some timeDiff \<Rightarrow>
             if timeDiff \<le> 0 then s
             else (let speedMps = meters / timeDiff; speedKph = speedMps * 3.6
                   in reportSpeed (toFixed1 speedKph) s))"

definition calculateSpeed_avg :: "'g host \<Rightarrow> tracker \<Rightarrow> real \<Rightarrow> real \<Rightarrow> string \<Rightarrow> string \<Rightarrow> tracker" where
  "calculateSpeed_avg h s dxCells dyCells time1 time2 =
     (let dxPixels = dxCells * real GRID_SIZE;
          dyPixels = dyCells * real GRID_SIZE;
          pixelDistance = sqrt (dxPixels * dxPixels + dyPixels * dyPixels)
      in if pixelDistance < 1 then setText Stationaer s
         else speedFromPixels h s dxPixels dyPixels time1 time2)"

definition calculateSpeed_sel :: "'g host \<Rightarrow> tracker \<Rightarrow> int \<Rightarrow> int \<Rightarrow> string \<Rightarrow> string \<Rightarrow> tracker" where
  "calculateSpeed_sel h s dxCells dyCells time1 time2 =
     (if dxCells = 0 \<and> dyCells = 0 then setText Stationaer s
      else (let dxPixels = real_of_int dxCells * real GRID_SIZE;
                dyPixels = real_of_int dyCells * real GRID_SIZE
            in speedFromPixels h s dxPixels dyPixels time1 time2))"

section \<open>The motion estimators\<close>

text \<open>
  Reading a grid. \<^verbatim>\<open>g[y]\<close> past the end of \<open>g\<close> is \<^verbatim>\<open>undefined\<close>, and reading
  \<^verbatim>\<open>[x]\<close> of \<^verbatim>\<open>undefined\<close> throws a \<^verbatim>\<open>TypeError\<close>; \<^verbatim>\<open>row[x]\<close> past the end of a
  row is \<^verbatim>\<open>undefined\<close>. A function that can throw returns \<open>Inl\<close> of the exception; the
  tracker is then as it was before the call, since nothing is assigned before the
  reads that can throw.
\<close>

datatype exn = TypeError

definition rowAt :: "cellGrid \<Rightarrow> int \<Rightarrow> real list option" where
  "rowAt g y = (if 0 \<le> y \<and> nat y < length g then Some (g ! nat y) else None)"

definition elemAt :: "real list \<Rightarrow> int \<Rightarrow> real option" where
  "elemAt row x = (if 0 \<le> x \<and> nat x < length row then Some (row ! nat x) else None)"

definition cellAt :: "cellGrid \<Rightarrow> int \<Rightarrow> int \<Rightarrow> exn + real option" where
  "cellAt g y x = (case rowAt g y of None \<Rightarrow> Inl TypeError | Some row \<Rightarrow> Inr (elemAt row x))"

text \<open>A \<^verbatim>\<open>for\<close> loop whose body can throw.\<close>

fun foldE :: "('a \<Rightarrow> 's \<Rightarrow> exn + 's) \<Rightarrow> 'a list \<Rightarrow> 's \<Rightarrow> exn + 's" where
  "foldE f [] s = Inr s"
| "foldE f (x # xs) s = (case f x s of Inl e \<Rightarrow> Inl e | Inr s1 \<Rightarrow> foldE f xs s1)"

text \<open>\<^verbatim>\<open>for (let d = -R; d <= R; d++)\<close>\<close>

definition offsets :: "int \<Rightarrow> int list" where
  "offsets R = [- R .. R]"

subsection \<open>Whole-field averaging: \<open>trackMovement\<close>\<close>

text \<open>
  \<open>bestMatch\<close> is \<open>(x, y, error)\<close>, \<open>(-1, -1, Infinity)\<close> at the start. Where the newer
  grid has no cell the error is \<^verbatim>\<open>Math.abs(v - undefined)\<close>, which is \<^verbatim>\<open>NaN\<close> and
  below nothing.
\<close>

type_synonym bestMatch_avg = "int \<times> int \<times> real option"

definition searchStep_avg :: "real \<Rightarrow> cellGrid \<Rightarrow> int \<Rightarrow> int \<Rightarrow> int \<Rightarrow> int \<Rightarrow> int \<Rightarrow> int \<Rightarrow> bestMatch_avg \<Rightarrow> exn + bestMatch_avg" where
  "searchStep_avg v grid2 rows cols y x searchY searchX bestMatch =
     (let newY = y + searchY; newX = x + searchX
      in if newY \<ge> 0 \<and> newY < rows \<and> newX \<ge> 0 \<and> newX < cols
         then (case cellAt grid2 newY newX of
                 Inl e \<Rightarrow> Inl e
               | Inr None \<Rightarrow> Inr bestMatch
               | Inr (Some w) \<Rightarrow>
                   (let error = \<bar>v - w\<bar>
                    in if belowInf error (snd (snd bestMatch)) then Inr (newX, newY, Some error)
                       else Inr bestMatch))
         else Inr bestMatch)"

definition SEARCH_RADIUS_avg :: int where
  "SEARCH_RADIUS_avg = 5"

definition cellStep_avg :: "cellGrid \<Rightarrow> cellGrid \<Rightarrow> int \<Rightarrow> int \<Rightarrow> nat \<Rightarrow> nat \<Rightarrow> int \<times> int \<times> nat \<Rightarrow> exn + int \<times> int \<times> nat" where
  "cellStep_avg grid1 grid2 rows cols y x acc =
     (case acc of (totalDx, totalDy, vectorCount) \<Rightarrow>
        (case cellAt grid1 (int y) (int x) of
           Inl e \<Rightarrow> Inl e
         | Inr None \<Rightarrow> Inr acc
         | Inr (Some v) \<Rightarrow>
             if v > 0.1
             then (case foldE (\<lambda>searchY. foldE (searchStep_avg v grid2 rows cols (int y) (int x) searchY)
                                  (offsets SEARCH_RADIUS_avg))
                         (offsets SEARCH_RADIUS_avg) (- 1, - 1, None) of
                     Inl e \<Rightarrow> Inl e
                   | Inr bestMatch \<Rightarrow>
                       if infBelow (snd (snd bestMatch)) 0.5
                       then Inr (totalDx + (fst bestMatch - int x),
                                 totalDy + (fst (snd bestMatch) - int y), vectorCount + 1)
                       else Inr acc)
             else Inr acc))"

definition trackMovement :: "'g host \<Rightarrow> tracker \<Rightarrow> frameRecord \<Rightarrow> frameRecord \<Rightarrow> exn + tracker" where
  "trackMovement h s gridData1 gridData2 =
     (let grid1 = grid gridData1; grid2 = grid gridData2; rows = length grid1
      in case arrayRead grid1 0 of
           None \<Rightarrow> Inl TypeError
         | Some row0 \<Rightarrow>
             (let cols = length row0
              in case foldE (\<lambda>y. foldE (cellStep_avg grid1 grid2 (int rows) (int cols) y) [0 ..< cols])
                        [0 ..< rows] (0, 0, 0) of
                   Inl e \<Rightarrow> Inl e
                 | Inr (totalDx, totalDy, vectorCount) \<Rightarrow>
                     if vectorCount > 10
                     then (let avgDx = real_of_int totalDx / real vectorCount;
                               avgDy = real_of_int totalDy / real vectorCount
                           in Inr (calculateSpeed_avg h s avgDx avgDy (timestamp gridData1) (timestamp gridData2)))
                     else Inr (setText BewegungUnklar s)))"

subsection \<open>Single target: \<open>trackMovementFromCenter\<close>\<close>

text \<open>\<open>bestMatch\<close> is \<open>(x, y, found)\<close>, \<open>(-1, -1, false)\<close> at the start.\<close>

type_synonym bestMatch_sel = "(int \<times> int \<times> bool) \<times> int option"

definition searchStep_sel :: "cellGrid \<Rightarrow> int \<Rightarrow> int \<Rightarrow> int \<Rightarrow> int \<Rightarrow> int \<Rightarrow> int \<Rightarrow> bestMatch_sel \<Rightarrow> exn + bestMatch_sel" where
  "searchStep_sel grid2 rows cols startY startX sY sX acc =
     (case acc of (bestMatch, minDistanceSq) \<Rightarrow>
        (let newY = startY + sY; newX = startX + sX
         in if newY \<ge> 0 \<and> newY < rows \<and> newX \<ge> 0 \<and> newX < cols
            then (case cellAt grid2 newY newX of
                    Inl e \<Rightarrow> Inl e
                  | Inr c \<Rightarrow>
                      if c = Some 1
                      then (let distanceSq = sX * sX + sY * sY
                            in if belowInf distanceSq minDistanceSq
                               then Inr ((newX, newY, True), Some distanceSq)
                               else Inr acc)
                      else Inr acc)
            else Inr acc))"

definition SEARCH_RADIUS_sel :: int where
  "SEARCH_RADIUS_sel = 8"

text \<open>\<^verbatim>\<open>grid1[startY] && grid1[startY][startX] === 1\<close>\<close>

definition targetAt :: "cellGrid \<Rightarrow> int \<Rightarrow> int \<Rightarrow> bool" where
  "targetAt grid1 startY startX =
     (case rowAt grid1 startY of None \<Rightarrow> False | Some row \<Rightarrow> elemAt row startX = Some 1)"

definition trackMovementFromCenter :: "'g host \<Rightarrow> tracker \<Rightarrow> frameRecord \<Rightarrow> frameRecord \<Rightarrow> exn + tracker" where
  "trackMovementFromCenter h s gridData1 gridData2 =
     (let grid1 = grid gridData1; grid2 = grid gridData2; rows = length grid1
      in case arrayRead grid1 0 of
           None \<Rightarrow> Inl TypeError
         | Some row0 \<Rightarrow>
             (let cols = length row0;
                  mapSize = getSize h;
                  crosshairPixelX = fst mapSize / 2;
                  crosshairPixelY = snd mapSize / 2;
                  startX = \<lfloor>crosshairPixelX / real GRID_SIZE\<rfloor>;
                  startY = \<lfloor>crosshairPixelY / real GRID_SIZE\<rfloor>
              in if targetAt grid1 startY startX
                 then (case foldE (\<lambda>sY. foldE (searchStep_sel grid2 (int rows) (int cols) startY startX sY)
                                      (offsets SEARCH_RADIUS_sel))
                             (offsets SEARCH_RADIUS_sel) ((- 1, - 1, False), None) of
                         Inl e \<Rightarrow> Inl e
                       | Inr ((bx, by, found), minDistanceSq) \<Rightarrow>
                           if found
                           then (let dxCells = bx - startX; dyCells = by - startY
                                 in Inr (calculateSpeed_sel h s dxCells dyCells
                                           (timestamp gridData1) (timestamp gridData2)))
                           else Inr (setText BewegungUnklar s))
                 else Inr (setText KeineZieldaten s)))"

section \<open>\<open>analyzeFrame\<close>\<close>

text \<open>
  \<^verbatim>\<open>this.gridData.push(newGridData); if (this.gridData.length > 10) this.gridData.shift();\<close>
\<close>

definition pushFrame :: "frameRecord \<Rightarrow> tracker \<Rightarrow> tracker" where
  "pushFrame newGridData s =
     (let pushed = gridData s @ [newGridData]
      in s\<lparr>gridData := (if length pushed > 10 then tl pushed else pushed)\<rparr>)"

definition lastGridData :: "tracker \<Rightarrow> frameRecord option" where
  "lastGridData s = (if length (gridData s) > 0 then Some (gridData s ! (length (gridData s) - 1)) else None)"

text \<open>
  The guard of the averaging variant is \<^verbatim>\<open>!this.isEnabled || !this.legendColorMap\<close>: a
  Map is an object and so is never falsy, whatever its size.
\<close>

definition analyzeFrame_avg :: "'g host \<Rightarrow> tracker \<Rightarrow> image \<Rightarrow> string \<Rightarrow> exn + tracker" where
  "analyzeFrame_avg h s imageElement ts =
     (if \<not> isEnabled s \<or> legendColorMap s = None then Inr s
      else (let currentGrid = currentGrid_avg (legendColorMap s) imageElement;
                newGridData = \<lparr>timestamp = ts, grid = currentGrid\<rparr>
            in case (case lastGridData s of
                       None \<Rightarrow> Inr s
                     | Some lastOne \<Rightarrow>
                         if timestamp lastOne \<noteq> timestamp newGridData
                         then trackMovement h s lastOne newGridData else Inr s) of
                 Inl e \<Rightarrow> Inl e
               | Inr s1 \<Rightarrow> Inr (pushFrame newGridData s1)))"

text \<open>
  The guard of the single-target variant is \<^verbatim>\<open>!this.isEnabled || !this.selectedColor\<close>:
  \<^verbatim>\<open>null\<close> and the empty string are falsy.
\<close>

definition analyzeFrame_sel :: "'g host \<Rightarrow> tracker \<Rightarrow> image \<Rightarrow> string \<Rightarrow> exn + tracker" where
  "analyzeFrame_sel h s imageElement ts =
     (case selectedColor s of
        None \<Rightarrow> Inr s
      | Some sel \<Rightarrow>
          if \<not> isEnabled s \<or> sel = [] then Inr s
          else (let currentGrid = currentGrid_sel (legendColorMap s) sel imageElement;
                    newGridData = \<lparr>timestamp = ts, grid = currentGrid\<rparr>
                in case (case lastGridData s of
                           None \<Rightarrow> Inr s
                         | Some lastOne \<Rightarrow>
                             if timestamp lastOne \<noteq> timestamp newGridData
                             then trackMovementFromCenter h s lastOne newGridData else Inr s) of
                     Inl e \<Rightarrow> Inl e
                   | Inr s1 \<Rightarrow> Inr (pushFrame newGridData s1)))"

text \<open>
  The first element of a list at which a cost is minimal over the whole list: what a
  scan that replaces its candidate only on a strictly smaller cost arrives at.
\<close>

definition firstMin :: "('a \<Rightarrow> 'b::linorder) \<Rightarrow> 'a list \<Rightarrow> 'a option" where
  "firstMin f xs = find (\<lambda>x. \<forall>y \<in> set xs. f x \<le> f y) xs"

definition keepMin :: "('a \<Rightarrow> 'b::linorder) \<Rightarrow> 'a \<Rightarrow> 'a option \<Rightarrow> 'a option" where
  "keepMin f x acc = (case acc of None \<Rightarrow> Some x | Some b \<Rightarrow> if f x < f b then Some x else Some b)"


text \<open>The square of \<open>color_distance\<close>, an integer: comparisons of distances are decided on it.\<close>

definition distSq :: "rgb \<Rightarrow> rgb \<Rightarrow> int" where
  "distSq rgb1 rgb2 =
     (case (rgb1, rgb2) of ((r1, g1, b1), (r2, g2, b2)) \<Rightarrow>
        (int (unat r1) - int (unat r2)) ^ 2 + (int (unat g1) - int (unat g2)) ^ 2
        + (int (unat b1) - int (unat b2)) ^ 2)"

section \<open>Notions of the specification\<close>

text \<open>
  A sampled legend pixel qualifies when its alpha exceeds 200 and \<open>R + G + B\<close> is below
  700; in the single-target (higher-fidelity) variant it must also not be near-grey.
  The averaging variant samples the centre column, the single-target variant the middle
  half of every row.
\<close>

definition colourOf :: "rgba \<Rightarrow> rgb" where
  "colourOf px = (case px of (r, g, b, a) \<Rightarrow> (r, g, b))"







text \<open>
  Test data: the legend of the specification's scenario, 4 pixels wide and 100 high,
  opaque blue in row 10, green in row 50 and red in row 90, transparent elsewhere; and
  a legend of the same size with no opaque pixel.
\<close>

definition legendBGR :: image where
  "legendBGR =
     \<lparr>width = 4, height = 100,
      pixelAt = (\<lambda>x y. if y = 10 then (0, 0, 255, 255) else if y = 50 then (0, 255, 0, 255)
                        else if y = 90 then (255, 0, 0, 255) else (0, 0, 0, 0))\<rparr>"

definition legendBlank :: image where
  "legendBlank = \<lparr>width = 4, height = 100, pixelAt = (\<lambda>x y. (0, 0, 0, 0))\<rparr>"

definition tableBGR :: colorTable where
  "tableBGR = [((0, 0, 255), 1), ((0, 255, 0), 2), ((255, 0, 0), 3)]"

text \<open>
  The constituent pixels of grid cell \<open>(gridX, gridY)\<close>, the square block of
  \<open>GRID_SIZE\<close> by \<open>GRID_SIZE\<close> pixels, row by row; those of them that are classified;
  the ranks of the classified pixels that are legend colours; and the number of
  classified pixels whose legend colour is, as a key string, the selected colour.
\<close>

definition alphaOf :: "rgba \<Rightarrow> byte" where
  "alphaOf px = (case px of (r, g, b, a) \<Rightarrow> a)"

definition blockPixels :: "image \<Rightarrow> nat \<Rightarrow> nat \<Rightarrow> rgba list" where
  "blockPixels img gridY gridX =
     concat (map (\<lambda>y. map (\<lambda>x. pixelAt img (gridX * GRID_SIZE + x) (gridY * GRID_SIZE + y)) [0 ..< GRID_SIZE])
               [0 ..< GRID_SIZE])"

definition classifiedPixels :: "image \<Rightarrow> nat \<Rightarrow> nat \<Rightarrow> rgba list" where
  "classifiedPixels img gridY gridX = filter (\<lambda>px. unat (alphaOf px) > 128) (blockPixels img gridY gridX)"

definition matchedRanks :: "colorTable option \<Rightarrow> image \<Rightarrow> nat \<Rightarrow> nat \<Rightarrow> nat list" where
  "matchedRanks lm img gridY gridX =
     List.map_filter (\<lambda>px. classify lm (colourOf px)) (classifiedPixels img gridY gridX)"

definition isTarget :: "colorTable option \<Rightarrow> string \<Rightarrow> rgba \<Rightarrow> bool" where
  "isTarget lm sel px =
     (case findClosestLegendColor lm (colourOf px) of None \<Rightarrow> False | Some k \<Rightarrow> toHex k = sel)"

definition targetCount :: "colorTable option \<Rightarrow> string \<Rightarrow> image \<Rightarrow> nat \<Rightarrow> nat \<Rightarrow> nat" where
  "targetCount lm sel img gridY gridX = length (filter (isTarget lm sel) (classifiedPixels img gridY gridX))"

text \<open>
  What one classified pixel adds to the sum and count of a cell (averaging variant)
  and to the count of target pixels (single-target variant).
\<close>

definition rankStep :: "colorTable option \<Rightarrow> rgba \<Rightarrow> nat \<times> nat \<Rightarrow> nat \<times> nat" where
  "rankStep lm px acc =
     (if unat (alphaOf px) > 128
      then (case classify lm (colourOf px) of
              None \<Rightarrow> acc
            | Some rank \<Rightarrow> (fst acc + rank, snd acc + 1))
      else acc)"

definition countStep :: "colorTable option \<Rightarrow> string \<Rightarrow> rgba \<Rightarrow> nat \<Rightarrow> nat" where
  "countStep lm sel px n = (if unat (alphaOf px) > 128 \<and> isTarget lm sel px then n + 1 else n)"


text \<open>
  A grid of \<open>rows\<close> rows of \<open>cols\<close> cells each, as \<open>analyzeFrame\<close> builds it from a frame
  of \<open>cols * GRID_SIZE\<close> (or up to \<open>GRID_SIZE - 1\<close> more) by \<open>rows * GRID_SIZE\<close> pixels.
\<close>

definition gridShape :: "nat \<Rightarrow> nat \<Rightarrow> cellGrid \<Rightarrow> bool" where
  "gridShape rows cols g = (length g = rows \<and> (\<forall>row \<in> set g. length row = cols))"

definition cellVal :: "cellGrid \<Rightarrow> int \<Rightarrow> int \<Rightarrow> real" where
  "cellVal g y x = g ! nat y ! nat x"

text \<open>
  The square of radius \<open>R\<close> around cell \<open>(x, y)\<close> in row-major order, as positions
  \<open>(newX, newY)\<close>, and its part inside a grid of \<open>rows\<close> by \<open>cols\<close> cells.
\<close>

definition squareAround :: "int \<Rightarrow> int \<Rightarrow> int \<Rightarrow> (int \<times> int) list" where
  "squareAround R y x = concat (map (\<lambda>sy. map (\<lambda>sx. (x + sx, y + sy)) (offsets R)) (offsets R))"

definition inBounds :: "int \<Rightarrow> int \<Rightarrow> int \<times> int \<Rightarrow> bool" where
  "inBounds rows cols p = (snd p \<ge> 0 \<and> snd p < rows \<and> fst p \<ge> 0 \<and> fst p < cols)"

definition searchWindow :: "int \<Rightarrow> int \<Rightarrow> int \<Rightarrow> int \<Rightarrow> int \<Rightarrow> (int \<times> int) list" where
  "searchWindow rows cols R y x = filter (inBounds rows cols) (squareAround R y x)"

subsection \<open>Whole-field averaging, in the words of the specification\<close>

text \<open>
  For an older-grid cell of value \<open>v\<close>: the error of a newer-grid position, the position
  of the in-bounds square of radius 5 at which the error is minimal (the first such in
  row-major order), the displacement accepted for the cell (none unless \<open>v > 0.1\<close> and
  the minimal error is below 0.5), all accepted displacements, and their mean when
  there are more than 10.
\<close>

definition matchError :: "real \<Rightarrow> cellGrid \<Rightarrow> int \<times> int \<Rightarrow> real" where
  "matchError v g2 p = \<bar>v - cellVal g2 (snd p) (fst p)\<bar>"

definition bestMatchFor :: "cellGrid \<Rightarrow> cellGrid \<Rightarrow> nat \<Rightarrow> nat \<Rightarrow> (int \<times> int) option" where
  "bestMatchFor g1 g2 y x =
     firstMin (matchError (cellVal g1 (int y) (int x)) g2)
       (searchWindow (int (length g1)) (int (length (g1 ! 0))) 5 (int y) (int x))"

definition acceptedVector :: "cellGrid \<Rightarrow> cellGrid \<Rightarrow> nat \<Rightarrow> nat \<Rightarrow> (int \<times> int) list" where
  "acceptedVector g1 g2 y x =
     (if cellVal g1 (int y) (int x) > 0.1
      then (case bestMatchFor g1 g2 y x of
              None \<Rightarrow> []
            | Some p \<Rightarrow>
                if matchError (cellVal g1 (int y) (int x)) g2 p < 0.5
                then [(fst p - int x, snd p - int y)] else [])
      else [])"

definition acceptedVectors :: "cellGrid \<Rightarrow> cellGrid \<Rightarrow> (int \<times> int) list" where
  "acceptedVectors g1 g2 =
     concat (map (\<lambda>y. concat (map (\<lambda>x. acceptedVector g1 g2 y x) [0 ..< length (g1 ! 0)]))
               [0 ..< length g1])"

definition meanDisplacement :: "cellGrid \<Rightarrow> cellGrid \<Rightarrow> (real \<times> real) option" where
  "meanDisplacement g1 g2 =
     (let vs = acceptedVectors g1 g2
      in if length vs > 10
         then Some (real_of_int (sum_list (map fst vs)) / real (length vs),
                    real_of_int (sum_list (map snd vs)) / real (length vs))
         else None)"

text \<open>Helpers of the proofs: a running best match as an optional position, and the totals a list of vectors adds.\<close>

definition encodeBest :: "(int \<times> int \<Rightarrow> real) \<Rightarrow> (int \<times> int) option \<Rightarrow> bestMatch_avg" where
  "encodeBest cost acc = (case acc of None \<Rightarrow> (- 1, - 1, None) | Some p \<Rightarrow> (fst p, snd p, Some (cost p)))"

definition pureStep :: "(int \<times> int \<Rightarrow> real) \<Rightarrow> int \<times> int \<Rightarrow> bestMatch_avg \<Rightarrow> bestMatch_avg" where
  "pureStep cost p bm = (if belowInf (cost p) (snd (snd bm)) then (fst p, snd p, Some (cost p)) else bm)"

definition addVectors :: "(int \<times> int) list \<Rightarrow> int \<times> int \<times> nat \<Rightarrow> int \<times> int \<times> nat" where
  "addVectors vs acc =
     (case acc of (totalDx, totalDy, vectorCount) \<Rightarrow>
        (totalDx + sum_list (map fst vs), totalDy + sum_list (map snd vs), vectorCount + length vs))"

text \<open>
  Test data: a host whose map is flat, 5 metres to the pixel, 110 pixels square, and
  which knows two time stamps five minutes apart; a field of distinct values and the
  same field moved one cell to the right, 2 by 7 cells and 1 by 6 cells.
\<close>

definition flatHost :: "(real \<times> real) host" where
  "flatHost =
     \<lparr>getCenter = (0, 0), latLngToContainerPoint = (\<lambda>p. p), containerPointToLatLng = (\<lambda>p. p),
      distanceTo = (\<lambda>p q. 5 * (\<bar>fst p - fst q\<bar> + \<bar>snd p - snd q\<bar>)),
      getSize = (110, 110),
      dateMs = (\<lambda>s. if s = ''2024-01-01T00:00:00Z'' then Some 0
                     else if s = ''2024-01-01T00:05:00Z'' then Some 300000 else None)\<rparr>"



definition stripOld :: frameRecord where
  "stripOld = \<lparr>timestamp = ''2024-01-01T00:00:00Z'', grid = [[1, 2, 3, 4, 5, 6]]\<rparr>"

definition stripNew :: frameRecord where
  "stripNew = \<lparr>timestamp = ''2024-01-01T00:05:00Z'', grid = [[0, 1, 2, 3, 4, 5]]\<rparr>"

subsection \<open>Single-target tracking, in the words of the specification\<close>

text \<open>
  The reference cell is the centre of the viewport in grid coordinates. A cell is
  active when it holds 1. The match is the active cell of the newer grid, inside the
  in-bounds square of radius 8 around the reference cell, whose squared Euclidean cell
  distance from the reference cell is minimal, the first such in row-major order.
\<close>

definition referenceCell :: "'g host \<Rightarrow> int \<times> int" where
  "referenceCell h =
     (\<lfloor>fst (getSize h) / 2 / real GRID_SIZE\<rfloor>, \<lfloor>snd (getSize h) / 2 / real GRID_SIZE\<rfloor>)"

definition activeIn :: "cellGrid \<Rightarrow> int \<times> int \<Rightarrow> bool" where
  "activeIn g p = (cellVal g (snd p) (fst p) = 1)"

definition referenceActive :: "cellGrid \<Rightarrow> int \<times> int \<Rightarrow> bool" where
  "referenceActive g p = (inBounds (int (length g)) (int (length (g ! 0))) p \<and> activeIn g p)"

definition distanceSqFrom :: "int \<times> int \<Rightarrow> int \<times> int \<Rightarrow> int" where
  "distanceSqFrom ref p = (fst p - fst ref) * (fst p - fst ref) + (snd p - snd ref) * (snd p - snd ref)"

definition nearestActive :: "cellGrid \<Rightarrow> cellGrid \<Rightarrow> int \<times> int \<Rightarrow> (int \<times> int) option" where
  "nearestActive g1 g2 ref =
     firstMin (distanceSqFrom ref)
       (filter (activeIn g2)
          (searchWindow (int (length g1)) (int (length (g1 ! 0))) 8 (snd ref) (fst ref)))"

text \<open>Helpers of the proofs: the running match of the single-target search as an optional position.\<close>

definition encodeSel :: "(int \<times> int \<Rightarrow> int) \<Rightarrow> (int \<times> int) option \<Rightarrow> bestMatch_sel" where
  "encodeSel cost acc =
     (case acc of None \<Rightarrow> ((- 1, - 1, False), None) | Some p \<Rightarrow> ((fst p, snd p, True), Some (cost p)))"

definition selStep :: "(int \<times> int \<Rightarrow> int) \<Rightarrow> int \<times> int \<Rightarrow> bestMatch_sel \<Rightarrow> bestMatch_sel" where
  "selStep cost p acc = (if belowInf (cost p) (snd acc) then ((fst p, snd p, True), Some (cost p)) else acc)"

text \<open>
  Test data: the scenario of the specification, a grid of 10 by 10 cells with the
  target at the reference cell \<open>(5, 5)\<close> in the older frame and at \<open>(6, 5)\<close> and \<open>(2, 2)\<close>
  in the newer one; and a newer frame without a target.
\<close>

definition targetGrid :: "(nat \<times> nat) list \<Rightarrow> cellGrid" where
  "targetGrid ps = map (\<lambda>y. map (\<lambda>x. if (x, y) \<in> set ps then 1 else 0) [0 ..< 10]) [0 ..< 10]"

definition targetOld :: frameRecord where
  "targetOld = \<lparr>timestamp = ''2024-01-01T00:00:00Z'', grid = targetGrid [(5, 5)]\<rparr>"

definition targetNew :: frameRecord where
  "targetNew = \<lparr>timestamp = ''2024-01-01T00:05:00Z'', grid = targetGrid [(2, 2), (6, 5)]\<rparr>"

definition targetGone :: frameRecord where
  "targetGone = \<lparr>timestamp = ''2024-01-01T00:05:00Z'', grid = targetGrid []\<rparr>"

subsection \<open>The frame history, in the words of the specification\<close>

text \<open>
  The enabling precondition of \<open>analyzeFrame\<close> as the code tests it; the record a call
  builds; whether the motion estimator is to run; the history after one append with
  eviction of the oldest entry beyond 10; and a frame that fits the history, in that
  its grid has the dimensions of the most recent entry's grid and at least one row.
\<close>

definition passes_avg :: "tracker \<Rightarrow> bool" where
  "passes_avg s = (isEnabled s \<and> legendColorMap s \<noteq> None)"

definition passes_sel :: "tracker \<Rightarrow> bool" where
  "passes_sel s = (isEnabled s \<and> selectedColor s \<noteq> None \<and> selectedColor s \<noteq> Some [])"

definition newFrame_avg :: "tracker \<Rightarrow> image \<Rightarrow> string \<Rightarrow> frameRecord" where
  "newFrame_avg s img ts = \<lparr>timestamp = ts, grid = currentGrid_avg (legendColorMap s) img\<rparr>"

definition newFrame_sel :: "tracker \<Rightarrow> image \<Rightarrow> string \<Rightarrow> frameRecord" where
  "newFrame_sel s img ts =
     \<lparr>timestamp = ts,
      grid = currentGrid_sel (legendColorMap s) (case selectedColor s of None \<Rightarrow> [] | Some sel \<Rightarrow> sel) img\<rparr>"

definition estimatorRuns :: "tracker \<Rightarrow> string \<Rightarrow> bool" where
  "estimatorRuns s ts = (gridData s \<noteq> [] \<and> timestamp (last (gridData s)) \<noteq> ts)"

definition historyAfter :: "frameRecord list \<Rightarrow> frameRecord \<Rightarrow> frameRecord list" where
  "historyAfter gd f = (if length (gd @ [f]) > 10 then tl (gd @ [f]) else gd @ [f])"

definition fits :: "tracker \<Rightarrow> image \<Rightarrow> bool" where
  "fits s img =
     (height img div GRID_SIZE > 0 \<and>
      gridShape (height img div GRID_SIZE) (width img div GRID_SIZE) (grid (last (gridData s))))"

text \<open>
  The trackers that a sequence of calls can produce from a new tracker. The calls of
  both variants are put together; a call of \<open>analyzeFrame\<close> that throws leaves the
  tracker as it was.
\<close>

inductive reachable :: "'g host \<Rightarrow> tracker \<Rightarrow> bool" for h :: "'g host" where
  created: "reachable h (constructor el)"
| enabled: "reachable h s \<Longrightarrow> reachable h (setAnalysisEnabled b s)"
| selected: "reachable h s \<Longrightarrow> reachable h (setSelectedColor c s)"
| legend_avg: "reachable h s \<Longrightarrow> reachable h (fst (parseLegend_avg s loaded))"
| legend_sel: "reachable h s \<Longrightarrow> reachable h (fst (parseLegend_sel s loaded))"
| frame_avg: "reachable h s \<Longrightarrow> analyzeFrame_avg h s img ts = Inr s1 \<Longrightarrow> reachable h s1"
| frame_sel: "reachable h s \<Longrightarrow> analyzeFrame_sel h s img ts = Inr s1 \<Longrightarrow> reachable h s1"

text \<open>
  Test data: a frame of 20 by 5 pixels, too low for a single row of cells; a tracker
  that has parsed the legend of the scenario and is enabled; and a tracker whose legend
  parse found no colours.
\<close>

definition frameLow :: image where
  "frameLow = \<lparr>width = 20, height = 5, pixelAt = (\<lambda>x y. (0, 0, 255, 255))\<rparr>"

definition trackerBGR :: tracker where
  "trackerBGR = setAnalysisEnabled True (fst (parseLegend_avg (constructor (Some Dashes)) (Some legendBGR)))"

definition trackerNoColors :: tracker where
  "trackerNoColors = setAnalysisEnabled True (fst (parseLegend_avg trackerBGR (Some legendBlank)))"

text \<open>
  More test data: a transparent frame of 10 by 10 pixels (one cell); trackers of both
  variants whose history holds one frame of one active cell; and frames that differ in
  their time stamp only.
\<close>

definition frameClear :: image where
  "frameClear = \<lparr>width = 10, height = 10, pixelAt = (\<lambda>x y. (0, 0, 0, 0))\<rparr>"

definition oneCell :: frameRecord where
  "oneCell = \<lparr>timestamp = ''2024-01-01T00:00:00Z'', grid = [[1]]\<rparr>"

definition trackerHist_avg :: tracker where
  "trackerHist_avg = trackerBGR\<lparr>gridData := [oneCell]\<rparr>"

definition trackerHist_sel :: tracker where
  "trackerHist_sel = (setSelectedColor (Some ''#0000ff'') trackerBGR)\<lparr>gridData := [oneCell]\<rparr>"

definition stamp :: "nat \<Rightarrow> frameRecord" where
  "stamp n = \<lparr>timestamp = showNat n, grid = []\<rparr>"
section \<open>Legend keys: string and bytes determine each other\<close>

lemma hexVal_hexDigit_all: "\<forall>n \<in> set [0 ..< 16]. hexVal (hexDigit n) = Some n"
  by code_simp

lemma hexVal_hexDigit: "n < 16 \<Longrightarrow> hexVal (hexDigit n) = Some n"
  using hexVal_hexDigit_all by simp

lemma padStart2_toString16:
  "padStart2 (toString16 v) = [hexDigit (unat v div 16), hexDigit (unat v mod 16)]"
proof (cases "unat v < 16")
  case True
  then have "hexDigit (unat v div 16) = CHR ''0''" by (simp add: hexDigit_def)
  with True show ?thesis by (simp add: padStart2_def toString16_def)
next
  case False
  then show ?thesis by (simp add: padStart2_def toString16_def)
qed

lemma parseInt16_two:
  assumes "a < 16" "b < 16"
  shows "parseInt16 [hexDigit a, hexDigit b] = Some (16 * a + b)"
  using assms by (simp add: parseInt16_def hexVal_hexDigit)

lemma unat_byte_split: "16 * (unat (v :: byte) div 16) + unat v mod 16 = unat v"
  by simp

lemma parseInt16_byte: "parseInt16 (padStart2 (toString16 v)) = Some (unat v)"
proof -
  have "unat v < 2 ^ LENGTH(8)" by (rule unsigned_less)
  then have "unat v < 256" by simp
  then have "unat v div 16 < 16" "unat v mod 16 < 16" by simp_all
  then show ?thesis by (simp add: padStart2_toString16 parseInt16_two)
qed

lemma parseHex_toHex: "parseHex (toHex (r, g, b)) = Some (unat r, unat g, unat b)"
proof -
  have l: "length (padStart2 (toString16 v)) = 2" for v by (simp add: padStart2_toString16)
  have "substring (toHex (r, g, b)) 1 3 = padStart2 (toString16 r)"
    "substring (toHex (r, g, b)) 3 5 = padStart2 (toString16 g)"
    "substring (toHex (r, g, b)) 5 7 = padStart2 (toString16 b)"
    by (simp_all add: substring_def toHex_def l padStart2_toString16)
  then show ?thesis by (simp add: parseHex_def parseInt16_byte)
qed

lemma toHex_inj: "toHex c = toHex c' \<Longrightarrow> c = c'"
proof -
  assume a: "toHex c = toHex c'"
  obtain r g b where c: "c = (r, g, b)" by (cases c)
  obtain r' g' b' where c': "c' = (r', g', b')" by (cases c')
  from a c c' have "parseHex (toHex (r, g, b)) = parseHex (toHex (r', g', b'))" by simp
  then show ?thesis using c c' by (simp add: parseHex_toHex word_unat_eq_iff)
qed

section \<open>Facts about the classifier\<close>

lemma firstMin_Nil: "firstMin f [] = None"
  by (simp add: firstMin_def)

lemma firstMin_Cons:
  "firstMin f (x # xs) = (if \<forall>y \<in> set xs. f x \<le> f y then Some x else firstMin f xs)"
proof (cases "\<forall>y \<in> set xs. f x \<le> f y")
  case True
  then show ?thesis by (simp add: firstMin_def)
next
  case False
  then obtain y0 where y0: "y0 \<in> set xs" "f y0 < f x" by (auto simp: not_le)
  have "find (\<lambda>z. \<forall>y \<in> set (x # xs). f z \<le> f y) xs = find (\<lambda>z. \<forall>y \<in> set xs. f z \<le> f y) xs"
  proof (rule find_cong [OF refl])
    fix z assume "z \<in> set xs"
    show "(\<forall>y \<in> set (x # xs). f z \<le> f y) = (\<forall>y \<in> set xs. f z \<le> f y)"
    proof
      assume "\<forall>y \<in> set xs. f z \<le> f y"
      then have "f z \<le> f y0" using y0 by blast
      then have "f z \<le> f x" using y0 by simp
      then show "\<forall>y \<in> set (x # xs). f z \<le> f y" using \<open>\<forall>y \<in> set xs. f z \<le> f y\<close> by simp
    qed simp
  qed
  moreover have "\<not> (\<forall>y \<in> set (x # xs). f x \<le> f y)" using False by simp
  ultimately have "firstMin f (x # xs) = firstMin f xs"
    unfolding firstMin_def find.simps by (simp only: if_False)
  then show ?thesis using False by (simp only: if_False)
qed

lemma fold_keepMin_Some: "fold (keepMin f) xs (Some b) = firstMin f (b # xs)"
proof (induction xs arbitrary: b)
  case Nil
  show ?case by (simp add: firstMin_def)
next
  case (Cons x xs)
  show ?case
  proof (cases "f x < f b")
    case True
    then have "fold (keepMin f) (x # xs) (Some b) = firstMin f (x # xs)"
      by (simp add: keepMin_def Cons.IH)
    moreover have "firstMin f (b # x # xs) = firstMin f (x # xs)"
      using True by (subst firstMin_Cons) (auto simp: not_le)
    ultimately show ?thesis by simp
  next
    case False
    then have bx: "f b \<le> f x" by simp
    have step: "fold (keepMin f) (x # xs) (Some b) = firstMin f (b # xs)"
      using False by (simp add: keepMin_def Cons.IH)
    show ?thesis
    proof (cases "\<forall>y \<in> set xs. f b \<le> f y")
      case True
      then show ?thesis using bx step by (simp add: firstMin_Cons)
    next
      case nb: False
      then obtain y0 where y0: "y0 \<in> set xs" "f y0 < f b" by (auto simp: not_le)
      then have nx: "\<not> (\<forall>y \<in> set xs. f x \<le> f y)" using bx by (auto simp: not_le intro!: bexI [of _ y0])
      have "\<not> (\<forall>y \<in> set (x # xs). f b \<le> f y)" using nb by simp
      then have "firstMin f (b # x # xs) = firstMin f (x # xs)"
        by (simp only: firstMin_Cons [of f b] if_False)
      also have "\<dots> = firstMin f xs" using nx by (simp only: firstMin_Cons [of f x] if_False)
      also have "\<dots> = firstMin f (b # xs)" using nb by (simp only: firstMin_Cons [of f b] if_False)
      finally show ?thesis using step by simp
    qed
  qed
qed

lemma fold_keepMin: "fold (keepMin f) xs None = firstMin f xs"
  by (cases xs) (simp_all add: firstMin_Nil keepMin_def fold_keepMin_Some)

lemma firstMin_SomeD:
  "firstMin f xs = Some x \<Longrightarrow> x \<in> set xs \<and> (\<forall>y \<in> set xs. f x \<le> f y)"
  by (auto simp: firstMin_def find_Some_iff)



lemma firstMin_map: "firstMin f (map g xs) = map_option g (firstMin (\<lambda>x. f (g x)) xs)"
proof -
  have "find P (map g xs) = map_option g (find (\<lambda>x. P (g x)) xs)" for P
    by (induction xs) auto
  then show ?thesis unfolding firstMin_def by simp
qed

lemma closestLoop_fold:
  "closestLoop p ks (map_option (color_distance p) acc, acc) =
     (map_option (color_distance p) (fold (keepMin (color_distance p)) ks acc),
      fold (keepMin (color_distance p)) ks acc)"
proof (induction ks arbitrary: acc)
  case Nil
  show ?case by simp
next
  case (Cons k ks)
  show ?case
  proof (cases acc)
    case None
    have "closestLoop p (k # ks) (None, None) = closestLoop p ks (map_option (color_distance p) (Some k), Some k)"
      by (simp add: belowInf_def)
    then show ?thesis using None Cons.IH [of "Some k"] by (simp add: keepMin_def)
  next
    case (Some b)
    show ?thesis
    proof (cases "color_distance p k < color_distance p b")
      case True
      have "closestLoop p (k # ks) (Some (color_distance p b), Some b) =
            closestLoop p ks (map_option (color_distance p) (Some k), Some k)"
        using True by (simp add: belowInf_def)
      then show ?thesis using Some True Cons.IH [of "Some k"] by (simp add: keepMin_def)
    next
      case False
      have "closestLoop p (k # ks) (Some (color_distance p b), Some b) =
            closestLoop p ks (map_option (color_distance p) (Some b), Some b)"
        using False by (simp add: belowInf_def)
      then show ?thesis using Some False Cons.IH [of "Some b"] by (simp add: keepMin_def)
    qed
  qed
qed

lemma closestLoop_firstMin:
  "closestLoop p ks (None, None) =
     (map_option (color_distance p) (firstMin (color_distance p) ks), firstMin (color_distance p) ks)"
  using closestLoop_fold [of p ks None] by (simp add: fold_keepMin)

lemma findClosestLegendColor_firstMin:
  "findClosestLegendColor (Some m) p =
     (case firstMin (color_distance p) (map fst m) of
        None \<Rightarrow> None
      | Some k \<Rightarrow> if color_distance p k < 100 then Some k else None)"
  by (cases m) (auto simp: findClosestLegendColor_def closestLoop_firstMin infBelow_def firstMin_Nil
      split: option.splits)

lemma find_fst_map_of:
  "find (\<lambda>e. P (fst e)) m = Some (k, v) \<Longrightarrow> map_of m k = Some v"
proof (induction m)
  case Nil
  then show ?case by simp
next
  case (Cons e m)
  show ?case
  proof (cases "P (fst e)")
    case True
    with Cons.prems show ?thesis by simp
  next
    case False
    with Cons.prems have f: "find (\<lambda>e. P (fst e)) m = Some (k, v)" by simp
    then have "P k" by (metis find_Some_iff fst_conv)
    with False have "fst e \<noteq> k" by auto
    with Cons.IH [OF f] show ?thesis by (cases e) simp
  qed
qed

lemma firstMin_entry_map_of:
  "firstMin (\<lambda>e. f (fst e)) m = Some (k, v) \<Longrightarrow> map_of m k = Some v"
proof -
  assume a: "firstMin (\<lambda>e. f (fst e)) m = Some (k, v)"
  have "(\<lambda>e. \<forall>y \<in> set m. f (fst e) \<le> f (fst y)) = (\<lambda>e. (\<lambda>c. \<forall>y \<in> set m. f c \<le> f (fst y)) (fst e))"
    by simp
  then have "find (\<lambda>e. (\<lambda>c. \<forall>y \<in> set m. f c \<le> f (fst y)) (fst e)) m = Some (k, v)"
    using a unfolding firstMin_def by simp
  then show ?thesis by (rule find_fst_map_of)
qed

lemma findClosestLegendColor_key:
  "findClosestLegendColor lm p = Some k \<Longrightarrow> \<exists>rank. legendGet lm k = Some rank"
proof (cases lm)
  case None
  assume "findClosestLegendColor lm p = Some k"
  with None show ?thesis by (simp add: findClosestLegendColor_def)
next
  case (Some m)
  assume a: "findClosestLegendColor lm p = Some k"
  then have "firstMin (color_distance p) (map fst m) = Some k"
    using Some by (auto simp: findClosestLegendColor_firstMin split: option.splits if_splits)
  then obtain e where e: "firstMin (\<lambda>e. color_distance p (fst e)) m = Some e" "fst e = k"
    by (auto simp: firstMin_map)
  then have "map_of m k = Some (snd e)" using firstMin_entry_map_of [of "color_distance p" m k "snd e"] by (cases e) simp
  then show ?thesis using Some by (simp add: legendGet_def)
qed



lemma color_distance_distSq: "color_distance p q = sqrt (real_of_int (distSq p q))"
  by (cases p; cases q) (simp add: color_distance_def distSq_def)


lemma color_distance_le_iff: "color_distance p q \<le> color_distance p q' \<longleftrightarrow> distSq p q \<le> distSq p q'"
  by (simp add: color_distance_distSq)

lemma color_distance_tolerance: "color_distance p q < 100 \<longleftrightarrow> distSq p q < 10000"
proof -
  have "sqrt (real_of_int (distSq p q)) < sqrt (100 ^ 2) \<longleftrightarrow> real_of_int (distSq p q) < 100 ^ 2"
    by (rule real_sqrt_less_iff)
  then show ?thesis by (simp add: color_distance_distSq)
qed

subsection \<open>Claim C3: the classifier returns the rank of the nearest legend entry\<close>



section \<open>Facts about the legend extractor\<close>






















subsection \<open>Claim C6: the table built by \<open>parseLegend\<close>\<close>



section \<open>Facts about the rasterizer\<close>

lemma block_in_image:
  assumes "g < n div s" "k < s"
  shows "g * s + k < (n :: nat)"
proof -
  have "g * s + k < g * s + s" using assms by simp
  also have "\<dots> = Suc g * s" by simp
  also have "\<dots> \<le> (n div s) * s" using assms by (intro mult_le_mono1) simp
  also have "\<dots> \<le> n" by simp
  finally show ?thesis .
qed

lemma imageData_read:
  assumes X: "X < width img" and Y: "Y < height img" and k: "k < 4"
  shows "(Y * width img + X) * 4 + k < length (imageData img) \<and>
         imageData img ! ((Y * width img + X) * 4 + k) = component (pixelAt img X Y) k"
proof -
  let ?w = "width img"
  let ?p = "Y * ?w + X"
  have "?p < Y * ?w + ?w" using X by simp
  also have "\<dots> = Suc Y * ?w" by simp
  also have "\<dots> \<le> height img * ?w" using Y by (intro mult_le_mono1) simp
  finally have p: "?p < ?w * height img" by (simp add: mult.commute)
  then have r: "?p * 4 + k < 4 * (?w * height img)" using k by simp
  have dm: "(q * 4 + k) div 4 = q \<and> (q * 4 + k) mod 4 = k" for q :: nat using k by simp
  have d: "(?p * 4 + k) div 4 = ?p" using dm [of ?p] by blast
  have m: "(?p * 4 + k) mod 4 = k" using dm [of ?p] by blast
  have "?p mod ?w = X" "?p div ?w = Y" using X by simp_all
  with r d m show ?thesis by (simp add: imageData_def)
qed

lemma pixelIndex_reads:
  assumes gy: "gridY < height img div GRID_SIZE" and gx: "gridX < width img div GRID_SIZE"
    and y: "y < GRID_SIZE" and x: "x < GRID_SIZE"
  shows "arrayRead (imageData img) (pixelIndex img gridY gridX y x + 3) =
           Some (alphaOf (pixelAt img (gridX * GRID_SIZE + x) (gridY * GRID_SIZE + y)))"
    and "(imageData img ! pixelIndex img gridY gridX y x,
          imageData img ! (pixelIndex img gridY gridX y x + 1),
          imageData img ! (pixelIndex img gridY gridX y x + 2)) =
           colourOf (pixelAt img (gridX * GRID_SIZE + x) (gridY * GRID_SIZE + y))"
proof -
  let ?X = "gridX * GRID_SIZE + x"
  let ?Y = "gridY * GRID_SIZE + y"
  let ?i = "pixelIndex img gridY gridX y x"
  have X: "?X < width img" using gx x by (rule block_in_image)
  have Y: "?Y < height img" using gy y by (rule block_in_image)
  have i: "?i = (?Y * width img + ?X) * 4" by (simp only: pixelIndex_def)
  have rd: "?i + k < length (imageData img) \<and> imageData img ! (?i + k) = component (pixelAt img ?X ?Y) k"
    if "k < 4" for k
    unfolding i using X Y that by (rule imageData_read)
  obtain r g b a where p: "pixelAt img ?X ?Y = (r, g, b, a)" by (cases "pixelAt img ?X ?Y") auto
  have c: "component (pixelAt img ?X ?Y) 0 = r" "component (pixelAt img ?X ?Y) 1 = g"
    "component (pixelAt img ?X ?Y) 2 = b" "component (pixelAt img ?X ?Y) 3 = a"
    by (simp_all add: component_def p)
  have "?i + 3 < length (imageData img)" "imageData img ! (?i + 3) = a"
    using rd [of 3] c by simp_all
  then show "arrayRead (imageData img) (?i + 3) = Some (alphaOf (pixelAt img ?X ?Y))"
    by (simp only: arrayRead_def alphaOf_def p) simp
  have "imageData img ! ?i = r" using rd [of 0] c by simp
  moreover have "imageData img ! (?i + 1) = g" using rd [of 1] c by simp
  moreover have "imageData img ! (?i + 2) = b" using rd [of 2] c by simp
  ultimately show "(imageData img ! ?i, imageData img ! (?i + 1), imageData img ! (?i + 2)) =
           colourOf (pixelAt img ?X ?Y)"
    by (simp only: colourOf_def p) simp
qed

lemma classify_closest:
  "classify lm c = (case findClosestLegendColor lm c of None \<Rightarrow> None | Some k \<Rightarrow> Some (the (legendGet lm k)))"
proof (cases "findClosestLegendColor lm c")
  case None
  then show ?thesis by (simp add: classify_def)
next
  case (Some k)
  with findClosestLegendColor_key [OF Some] show ?thesis by (auto simp: classify_def)
qed

lemma pixelStep_avg_rankStep:
  assumes "gridY < height img div GRID_SIZE" "gridX < width img div GRID_SIZE" "y < GRID_SIZE" "x < GRID_SIZE"
  shows "pixelStep_avg lm img gridY gridX y x acc =
         rankStep lm (pixelAt img (gridX * GRID_SIZE + x) (gridY * GRID_SIZE + y)) acc"
  using pixelIndex_reads [OF assms]
  by (cases acc) (simp add: pixelStep_avg_def rankStep_def Let_def classify_closest split: option.splits)

lemma pixelStep_sel_countStep:
  assumes "gridY < height img div GRID_SIZE" "gridX < width img div GRID_SIZE" "y < GRID_SIZE" "x < GRID_SIZE"
  shows "pixelStep_sel lm sel img gridY gridX y x n =
         countStep lm sel (pixelAt img (gridX * GRID_SIZE + x) (gridY * GRID_SIZE + y)) n"
  using pixelIndex_reads [OF assms]
  by (simp add: pixelStep_sel_def countStep_def isTarget_def Let_def split: option.splits)

lemma fold_nested_concat:
  "fold (\<lambda>y. fold (\<lambda>x. g (P y x)) xs) ys acc = fold g (concat (map (\<lambda>y. map (P y) xs) ys)) acc"
  by (induction ys arbitrary: acc) (simp_all add: fold_map comp_def)

lemma fold_nested_cong:
  assumes "\<And>y x a. y \<in> set ys \<Longrightarrow> x \<in> set xs \<Longrightarrow> f y x a = f' y x a"
  shows "fold (\<lambda>y. fold (f y) xs) ys acc = fold (\<lambda>y. fold (f' y) xs) ys acc"
proof -
  have inner: "fold (f y) xs a = fold (f' y) xs a" if "y \<in> set ys" for y a
    using that assms by (intro fold_cong) auto
  show ?thesis by (rule fold_cong) (auto simp: inner)
qed

lemma fold_rankStep:
  "fold (rankStep lm) pxs acc =
     (fst acc + sum_list (List.map_filter (\<lambda>px. classify lm (colourOf px)) (filter (\<lambda>px. unat (alphaOf px) > 128) pxs)),
      snd acc + length (List.map_filter (\<lambda>px. classify lm (colourOf px)) (filter (\<lambda>px. unat (alphaOf px) > 128) pxs)))"
proof (induction pxs arbitrary: acc)
  case Nil
  show ?case by (simp add: List.map_filter_simps)
next
  case (Cons px pxs)
  let ?rs = "\<lambda>zs. List.map_filter (\<lambda>px. classify lm (colourOf px)) (filter (\<lambda>px. unat (alphaOf px) > 128) zs)"
  have unfold: "fold (rankStep lm) (px # pxs) acc =
      (fst (rankStep lm px acc) + sum_list (?rs pxs), snd (rankStep lm px acc) + length (?rs pxs))"
    by (simp only: fold_simps Cons.IH)
  have head: "(fst (rankStep lm px acc), snd (rankStep lm px acc)) =
      (fst acc + sum_list (?rs [px]), snd acc + length (?rs [px]))"
    by (cases "classify lm (colourOf px)") (simp_all add: rankStep_def List.map_filter_simps)
  have split: "?rs (px # pxs) = ?rs [px] @ ?rs pxs"
    by (simp add: List.map_filter_def)
  show ?case unfolding unfold split using head by simp
qed

lemma fold_countStep:
  "fold (countStep lm sel) pxs n =
     n + length (filter (isTarget lm sel) (filter (\<lambda>px. unat (alphaOf px) > 128) pxs))"
proof (induction pxs arbitrary: n)
  case Nil
  show ?case by simp
next
  case (Cons px pxs)
  have "fold (countStep lm sel) (px # pxs) n =
      countStep lm sel px n + length (filter (isTarget lm sel) (filter (\<lambda>px. unat (alphaOf px) > 128) pxs))"
    by (simp only: fold_simps Cons.IH)
  moreover have "countStep lm sel px n =
      n + length (filter (isTarget lm sel) (filter (\<lambda>px. unat (alphaOf px) > 128) [px]))"
    by (simp add: countStep_def)
  ultimately show ?case by simp
qed

lemma cell_avg_ranks:
  assumes gy: "gridY < height img div GRID_SIZE" and gx: "gridX < width img div GRID_SIZE"
  shows "cell_avg lm img gridY gridX =
     (let ranks = matchedRanks lm img gridY gridX
      in if real (length ranks) > real (GRID_SIZE * GRID_SIZE) / 10
         then real (sum_list ranks) / real (length ranks) else 0)"
proof -
  have "fold (\<lambda>y. fold (pixelStep_avg lm img gridY gridX y) [0 ..< GRID_SIZE]) [0 ..< GRID_SIZE] (0, 0) =
        fold (\<lambda>y. fold (\<lambda>x. rankStep lm (pixelAt img (gridX * GRID_SIZE + x) (gridY * GRID_SIZE + y)))
               [0 ..< GRID_SIZE]) [0 ..< GRID_SIZE] (0, 0)"
    by (rule fold_nested_cong) (simp add: pixelStep_avg_rankStep [OF gy gx])
  also have "\<dots> = fold (rankStep lm) (blockPixels img gridY gridX) (0, 0)"
    unfolding blockPixels_def by (rule fold_nested_concat)
  also have "\<dots> = (sum_list (matchedRanks lm img gridY gridX), length (matchedRanks lm img gridY gridX))"
    by (simp add: fold_rankStep matchedRanks_def classifiedPixels_def)
  finally show ?thesis by (simp add: cell_avg_def Let_def)
qed

lemma cell_sel_count:
  assumes gy: "gridY < height img div GRID_SIZE" and gx: "gridX < width img div GRID_SIZE"
  shows "cell_sel lm sel img gridY gridX =
     (if real (targetCount lm sel img gridY gridX) > real (GRID_SIZE * GRID_SIZE) / 10 then 1 else 0)"
proof -
  have "fold (\<lambda>y. fold (pixelStep_sel lm sel img gridY gridX y) [0 ..< GRID_SIZE]) [0 ..< GRID_SIZE] 0 =
        fold (\<lambda>y. fold (\<lambda>x. countStep lm sel (pixelAt img (gridX * GRID_SIZE + x) (gridY * GRID_SIZE + y)))
               [0 ..< GRID_SIZE]) [0 ..< GRID_SIZE] 0"
    by (rule fold_nested_cong) (simp add: pixelStep_sel_countStep [OF gy gx])
  also have "\<dots> = fold (countStep lm sel) (blockPixels img gridY gridX) 0"
    unfolding blockPixels_def by (rule fold_nested_concat)
  also have "\<dots> = targetCount lm sel img gridY gridX"
    by (simp add: fold_countStep targetCount_def classifiedPixels_def)
  finally show ?thesis by (simp add: cell_sel_def Let_def)
qed

lemma makeGrid_shape:
  "length (makeGrid img cell) = height img div GRID_SIZE \<and>
   (\<forall>row \<in> set (makeGrid img cell). length row = width img div GRID_SIZE)"
  by (auto simp: makeGrid_def Let_def)



lemma firstMin_cong_order:
  assumes "\<And>x y. x \<in> set xs \<Longrightarrow> y \<in> set xs \<Longrightarrow> (f x \<le> f y) = (g x \<le> g y)"
  shows "firstMin f xs = firstMin g xs"
  unfolding firstMin_def by (rule find_cong) (auto simp: assms)

lemma findClosestLegendColor_code [code]:
  "findClosestLegendColor lm p =
     (case lm of
        None \<Rightarrow> None
      | Some m \<Rightarrow>
          (case firstMin (distSq p) (map fst m) of
             None \<Rightarrow> None
           | Some k \<Rightarrow> if distSq p k < 10000 then Some k else None))"
proof (cases lm)
  case None
  then show ?thesis by (simp add: findClosestLegendColor_def)
next
  case (Some m)
  have "firstMin (color_distance p) (map fst m) = firstMin (distSq p) (map fst m)"
    by (rule firstMin_cong_order) (simp add: color_distance_le_iff)
  then show ?thesis using Some
    by (simp add: findClosestLegendColor_firstMin color_distance_tolerance split: option.splits)
qed

lemma currentGrid_shape:
  "length (currentGrid_avg lm img) = height img div GRID_SIZE \<and>
   (\<forall>row \<in> set (currentGrid_avg lm img). length row = width img div GRID_SIZE) \<and>
   length (currentGrid_sel lm sel img) = height img div GRID_SIZE \<and>
   (\<forall>row \<in> set (currentGrid_sel lm sel img). length row = width img div GRID_SIZE)"
  using makeGrid_shape [of img "cell_avg lm img"] makeGrid_shape [of img "cell_sel lm sel img"]
  by (simp add: currentGrid_avg_def currentGrid_sel_def)

subsection \<open>Claim C7: what the rasterizer puts into a cell\<close>



section \<open>Facts about the whole-field estimator\<close>

lemma foldE_Inr:
  assumes "\<And>x a. x \<in> set xs \<Longrightarrow> f x a = Inr (g x a)"
  shows "foldE f xs a = Inr (fold g xs a)"
  using assms by (induction xs arbitrary: a) simp_all

lemma foldE_nested_Inr:
  assumes "\<And>y x a. y \<in> set ys \<Longrightarrow> x \<in> set xs \<Longrightarrow> f y x a = Inr (g y x a)"
  shows "foldE (\<lambda>y. foldE (f y) xs) ys a = Inr (fold (\<lambda>y. fold (g y) xs) ys a)"
proof (rule foldE_Inr)
  fix y a assume "y \<in> set ys"
  then show "foldE (f y) xs a = Inr (fold (g y) xs a)"
    using assms by (intro foldE_Inr) simp
qed

lemma fold_filter_skip:
  "fold (\<lambda>p a. if P p then f p a else a) ps a = fold f (filter P ps) a"
  by (induction ps arbitrary: a) simp_all

lemma cellAt_inside:
  assumes "gridShape rows cols g" "0 \<le> y" "y < int rows" "0 \<le> x" "x < int cols"
  shows "cellAt g y x = Inr (Some (cellVal g y x))"
proof -
  from assms have y: "nat y < length g" by (simp add: gridShape_def)
  then have "g ! nat y \<in> set g" by simp
  with assms have "length (g ! nat y) = cols" by (simp add: gridShape_def)
  with assms y show ?thesis by (simp add: cellAt_def rowAt_def elemAt_def cellVal_def)
qed

lemma searchStep_avg_pure:
  assumes "gridShape rows cols g2"
  shows "searchStep_avg v g2 (int rows) (int cols) y x searchY searchX bm =
         Inr (if inBounds (int rows) (int cols) (x + searchX, y + searchY)
              then pureStep (matchError v g2) (x + searchX, y + searchY) bm else bm)"
proof (cases "inBounds (int rows) (int cols) (x + searchX, y + searchY)")
  case True
  then have "cellAt g2 (y + searchY) (x + searchX) = Inr (Some (cellVal g2 (y + searchY) (x + searchX)))"
    using assms by (intro cellAt_inside) (auto simp: inBounds_def)
  with True show ?thesis
    by (simp add: searchStep_avg_def inBounds_def pureStep_def matchError_def Let_def)
next
  case False
  then show ?thesis by (auto simp: searchStep_avg_def inBounds_def Let_def)
qed

lemma pureStep_encode:
  "pureStep cost p (encodeBest cost acc) = encodeBest cost (keepMin cost p acc)"
  by (cases acc) (simp_all add: pureStep_def encodeBest_def keepMin_def belowInf_def)

lemma fold_pureStep_encode:
  "fold (pureStep cost) ps (encodeBest cost acc) = encodeBest cost (fold (keepMin cost) ps acc)"
  by (induction ps arbitrary: acc) (simp_all add: pureStep_encode)

lemma search_avg_result:
  assumes "gridShape rows cols g2"
  shows "foldE (\<lambda>searchY. foldE (searchStep_avg v g2 (int rows) (int cols) y x searchY) (offsets R))
           (offsets R) (- 1, - 1, None) =
         Inr (encodeBest (matchError v g2)
                (firstMin (matchError v g2) (searchWindow (int rows) (int cols) R y x)))"
proof -
  let ?cost = "matchError v g2"
  let ?stepP = "\<lambda>p bm. if inBounds (int rows) (int cols) p then pureStep ?cost p bm else bm"
  have "foldE (\<lambda>searchY. foldE (searchStep_avg v g2 (int rows) (int cols) y x searchY) (offsets R))
           (offsets R) (- 1, - 1, None) =
        Inr (fold (\<lambda>sy. fold (\<lambda>sx. ?stepP (x + sx, y + sy)) (offsets R)) (offsets R) (- 1, - 1, None))"
    by (rule foldE_nested_Inr) (simp add: searchStep_avg_pure [OF assms])
  also have "fold (\<lambda>sy. fold (\<lambda>sx. ?stepP (x + sx, y + sy)) (offsets R)) (offsets R) (- 1, - 1, None) =
        fold ?stepP (squareAround R y x) (- 1, - 1, None)"
    unfolding squareAround_def by (rule fold_nested_concat)
  also have "\<dots> = fold (pureStep ?cost) (searchWindow (int rows) (int cols) R y x) (encodeBest ?cost None)"
    by (simp add: fold_filter_skip searchWindow_def encodeBest_def)
  also have "\<dots> = encodeBest ?cost (firstMin ?cost (searchWindow (int rows) (int cols) R y x))"
    by (simp add: fold_pureStep_encode fold_keepMin)
  finally show ?thesis .
qed

lemma gridShape_row0:
  "gridShape rows cols g \<Longrightarrow> rows > 0 \<Longrightarrow> length (g ! 0) = cols"
  by (cases g) (auto simp: gridShape_def)

lemma cellStep_avg_vector:
  assumes g1: "gridShape rows cols g1" and g2: "gridShape rows cols g2"
    and y: "y < rows" and x: "x < cols"
  shows "cellStep_avg g1 g2 (int rows) (int cols) y x acc = Inr (addVectors (acceptedVector g1 g2 y x) acc)"
proof -
  obtain totalDx totalDy vectorCount where acc: "acc = (totalDx, totalDy, vectorCount)" by (cases acc)
  let ?v = "cellVal g1 (int y) (int x)"
  have rd: "cellAt g1 (int y) (int x) = Inr (Some ?v)"
    using g1 y x by (intro cellAt_inside) simp_all
  have l: "int (length g1) = int rows" "int (length (g1 ! 0)) = int cols"
    using g1 y gridShape_row0 [OF g1] by (simp_all add: gridShape_def)
  show ?thesis
  proof (cases "?v > 0.1")
    case False
    then show ?thesis by (simp add: cellStep_avg_def rd acc acceptedVector_def addVectors_def)
  next
    case True
    let ?best = "bestMatchFor g1 g2 y x"
    have s: "foldE (\<lambda>searchY. foldE (searchStep_avg ?v g2 (int rows) (int cols) (int y) (int x) searchY)
                (offsets SEARCH_RADIUS_avg)) (offsets SEARCH_RADIUS_avg) (- 1, - 1, None) =
             Inr (encodeBest (matchError ?v g2) ?best)"
      unfolding bestMatchFor_def l using search_avg_result [OF g2, of ?v "int y" "int x" 5]
      by (simp add: SEARCH_RADIUS_avg_def)
    show ?thesis
    proof (cases ?best)
      case None
      then show ?thesis using True
        by (simp add: cellStep_avg_def rd acc s encodeBest_def infBelow_def acceptedVector_def addVectors_def)
    next
      case (Some p)
      then show ?thesis using True
        by (simp add: cellStep_avg_def rd acc s encodeBest_def infBelow_def acceptedVector_def addVectors_def)
    qed
  qed
qed

lemma addVectors_append: "addVectors (vs @ ws) acc = addVectors ws (addVectors vs acc)"
  by (cases acc) (simp add: addVectors_def)

lemma addVectors_Nil: "addVectors [] acc = acc"
  by (cases acc) (simp add: addVectors_def)

lemma fold_addVectors:
  "fold (\<lambda>x. addVectors (V x)) xs acc = addVectors (concat (map V xs)) acc"
  by (induction xs arbitrary: acc) (simp_all add: addVectors_Nil addVectors_append)

lemma fold_addVectors_nested:
  "fold (\<lambda>y. fold (\<lambda>x. addVectors (V y x)) xs) ys acc =
   addVectors (concat (map (\<lambda>y. concat (map (V y) xs)) ys)) acc"
proof -
  have "fold (\<lambda>y. fold (\<lambda>x. addVectors (V y x)) xs) ys acc =
        fold (\<lambda>y. addVectors (concat (map (V y) xs))) ys acc"
    by (simp add: fold_addVectors [abs_def])
  then show ?thesis by (simp add: fold_addVectors)
qed

lemma trackMovement_totals:
  assumes g1: "gridShape rows cols g1" and g2: "gridShape rows cols g2" and r: "rows > 0"
  shows "foldE (\<lambda>y. foldE (cellStep_avg g1 g2 (int rows) (int cols) y) [0 ..< cols]) [0 ..< rows] (0, 0, 0) =
         Inr (sum_list (map fst (acceptedVectors g1 g2)), sum_list (map snd (acceptedVectors g1 g2)),
              length (acceptedVectors g1 g2))"
proof -
  have l: "length g1 = rows" "length (g1 ! 0) = cols"
    using g1 gridShape_row0 [OF g1 r] by (simp_all add: gridShape_def)
  have "foldE (\<lambda>y. foldE (cellStep_avg g1 g2 (int rows) (int cols) y) [0 ..< cols]) [0 ..< rows] (0, 0, 0) =
        Inr (fold (\<lambda>y. fold (\<lambda>x. addVectors (acceptedVector g1 g2 y x)) [0 ..< cols]) [0 ..< rows] (0, 0, 0))"
    by (rule foldE_nested_Inr) (simp add: cellStep_avg_vector [OF g1 g2])
  also have "fold (\<lambda>y. fold (\<lambda>x. addVectors (acceptedVector g1 g2 y x)) [0 ..< cols]) [0 ..< rows] (0, 0, 0) =
        addVectors (acceptedVectors g1 g2) (0, 0, 0)"
    unfolding acceptedVectors_def l by (rule fold_addVectors_nested)
  finally show ?thesis by (simp add: addVectors_def)
qed

lemma calculateSpeed_avg_code [code]:
  "calculateSpeed_avg h s dxCells dyCells time1 time2 =
     (let dxPixels = dxCells * real GRID_SIZE;
          dyPixels = dyCells * real GRID_SIZE
      in if dxPixels * dxPixels + dyPixels * dyPixels < 1 then setText Stationaer s
         else speedFromPixels h s dxPixels dyPixels time1 time2)"
  by (simp add: calculateSpeed_avg_def Let_def)

lemma trackMovement_refines:
  assumes g1: "gridShape rows cols (grid gridData1)" and g2: "gridShape rows cols (grid gridData2)"
    and r: "rows > 0"
  shows "trackMovement h s gridData1 gridData2 =
         Inr (case meanDisplacement (grid gridData1) (grid gridData2) of
                None \<Rightarrow> setText BewegungUnklar s
              | Some d \<Rightarrow> calculateSpeed_avg h s (fst d) (snd d) (timestamp gridData1) (timestamp gridData2))"
proof -
  have l: "length (grid gridData1) = rows" "length (grid gridData1 ! 0) = cols"
    using g1 gridShape_row0 [OF g1 r] by (simp_all add: gridShape_def)
  have rd: "arrayRead (grid gridData1) 0 = Some (grid gridData1 ! 0)"
    using l r by (simp add: arrayRead_def)
  show ?thesis
    by (simp add: trackMovement_def Let_def rd l trackMovement_totals [OF g1 g2 r] meanDisplacement_def)
qed

subsection \<open>Claim C1: \<open>trackMovement\<close> reports the mean of the accepted displacements\<close>




section \<open>Facts about the single-target estimator\<close>

lemma searchStep_sel_pure:
  assumes "gridShape rows cols g2"
  shows "searchStep_sel g2 (int rows) (int cols) startY startX sY sX acc =
         Inr (if inBounds (int rows) (int cols) (startX + sX, startY + sY) \<and>
                 activeIn g2 (startX + sX, startY + sY)
              then selStep (distanceSqFrom (startX, startY)) (startX + sX, startY + sY) acc else acc)"
proof (cases "inBounds (int rows) (int cols) (startX + sX, startY + sY)")
  case True
  then have "cellAt g2 (startY + sY) (startX + sX) = Inr (Some (cellVal g2 (startY + sY) (startX + sX)))"
    using assms by (intro cellAt_inside) (auto simp: inBounds_def)
  with True show ?thesis
    by (cases acc)
       (simp add: searchStep_sel_def inBounds_def selStep_def activeIn_def distanceSqFrom_def Let_def)
next
  case False
  then show ?thesis by (cases acc) (auto simp: searchStep_sel_def inBounds_def Let_def)
qed

lemma selStep_encode:
  "selStep cost p (encodeSel cost acc) = encodeSel cost (keepMin cost p acc)"
  by (cases acc) (simp_all add: selStep_def encodeSel_def keepMin_def belowInf_def)

lemma fold_selStep_encode:
  "fold (selStep cost) ps (encodeSel cost acc) = encodeSel cost (fold (keepMin cost) ps acc)"
  by (induction ps arbitrary: acc) (simp_all add: selStep_encode)

lemma search_sel_result:
  assumes "gridShape rows cols g2"
  shows "foldE (\<lambda>sY. foldE (searchStep_sel g2 (int rows) (int cols) startY startX sY) (offsets R))
           (offsets R) ((- 1, - 1, False), None) =
         Inr (encodeSel (distanceSqFrom (startX, startY))
                (firstMin (distanceSqFrom (startX, startY))
                   (filter (activeIn g2) (searchWindow (int rows) (int cols) R startY startX))))"
proof -
  let ?cost = "distanceSqFrom (startX, startY)"
  let ?P = "\<lambda>p. inBounds (int rows) (int cols) p \<and> activeIn g2 p"
  let ?stepP = "\<lambda>p acc. if ?P p then selStep ?cost p acc else acc"
  have "foldE (\<lambda>sY. foldE (searchStep_sel g2 (int rows) (int cols) startY startX sY) (offsets R))
           (offsets R) ((- 1, - 1, False), None) =
        Inr (fold (\<lambda>sy. fold (\<lambda>sx. ?stepP (startX + sx, startY + sy)) (offsets R)) (offsets R)
               ((- 1, - 1, False), None))"
    by (rule foldE_nested_Inr) (simp add: searchStep_sel_pure [OF assms])
  also have "fold (\<lambda>sy. fold (\<lambda>sx. ?stepP (startX + sx, startY + sy)) (offsets R)) (offsets R)
               ((- 1, - 1, False), None) =
        fold ?stepP (squareAround R startY startX) ((- 1, - 1, False), None)"
    unfolding squareAround_def by (rule fold_nested_concat)
  also have "\<dots> = fold (selStep ?cost) (filter ?P (squareAround R startY startX)) (encodeSel ?cost None)"
    by (simp add: fold_filter_skip encodeSel_def)
  also have "filter ?P (squareAround R startY startX) =
             filter (activeIn g2) (searchWindow (int rows) (int cols) R startY startX)"
    by (simp add: searchWindow_def conj_commute)
  also have "fold (selStep ?cost) \<dots> (encodeSel ?cost None) =
             encodeSel ?cost (firstMin ?cost (filter (activeIn g2) (searchWindow (int rows) (int cols) R startY startX)))"
    by (simp add: fold_selStep_encode fold_keepMin)
  finally show ?thesis .
qed

lemma targetAt_referenceActive:
  assumes g1: "gridShape rows cols g1" and r: "rows > 0"
  shows "targetAt g1 startY startX = referenceActive g1 (startX, startY)"
proof -
  have l: "length g1 = rows" "length (g1 ! 0) = cols"
    using g1 gridShape_row0 [OF g1 r] by (simp_all add: gridShape_def)
  show ?thesis
  proof (cases "0 \<le> startY \<and> startY < int rows")
    case False
    then show ?thesis by (auto simp: targetAt_def rowAt_def referenceActive_def inBounds_def l)
  next
    case True
    then have "nat startY < length g1" using l by auto
    then have "g1 ! nat startY \<in> set g1" by simp
    then have "length (g1 ! nat startY) = cols" using g1 by (simp add: gridShape_def)
    with True show ?thesis
      by (auto simp: targetAt_def rowAt_def elemAt_def referenceActive_def inBounds_def l activeIn_def cellVal_def)
  qed
qed

lemma trackMovementFromCenter_refines:
  assumes g1: "gridShape rows cols (grid gridData1)" and g2: "gridShape rows cols (grid gridData2)"
    and r: "rows > 0"
  shows "trackMovementFromCenter h s gridData1 gridData2 =
         Inr (if \<not> referenceActive (grid gridData1) (referenceCell h) then setText KeineZieldaten s
              else (case nearestActive (grid gridData1) (grid gridData2) (referenceCell h) of
                      None \<Rightarrow> setText BewegungUnklar s
                    | Some p \<Rightarrow>
                        calculateSpeed_sel h s (fst p - fst (referenceCell h)) (snd p - snd (referenceCell h))
                          (timestamp gridData1) (timestamp gridData2)))"
proof -
  define startX where "startX = \<lfloor>fst (getSize h) / 2 / real GRID_SIZE\<rfloor>"
  define startY where "startY = \<lfloor>snd (getSize h) / 2 / real GRID_SIZE\<rfloor>"
  have ref: "referenceCell h = (startX, startY)" by (simp only: referenceCell_def startX_def startY_def)
  have l: "length (grid gridData1) = rows" "length (grid gridData1 ! 0) = cols"
    using g1 gridShape_row0 [OF g1 r] by (simp_all add: gridShape_def)
  have rd: "arrayRead (grid gridData1) 0 = Some (grid gridData1 ! 0)"
    using l r by (simp add: arrayRead_def)
  have unfold: "trackMovementFromCenter h s gridData1 gridData2 =
      (if targetAt (grid gridData1) startY startX
       then (case foldE (\<lambda>sY. foldE (searchStep_sel (grid gridData2) (int rows) (int cols) startY startX sY)
                                      (offsets SEARCH_RADIUS_sel))
                             (offsets SEARCH_RADIUS_sel) ((- 1, - 1, False), None) of
                         Inl e \<Rightarrow> Inl e
                       | Inr ((bx, by, found), minDistanceSq) \<Rightarrow>
                           if found
                           then Inr (calculateSpeed_sel h s (bx - startX) (by - startY)
                                           (timestamp gridData1) (timestamp gridData2))
                           else Inr (setText BewegungUnklar s))
       else Inr (setText KeineZieldaten s))"
    unfolding trackMovementFromCenter_def Let_def rd l startX_def startY_def by (simp only: option.case l)
  have t: "targetAt (grid gridData1) startY startX = referenceActive (grid gridData1) (startX, startY)"
    by (rule targetAt_referenceActive [OF g1 r])
  have s: "foldE (\<lambda>sY. foldE (searchStep_sel (grid gridData2) (int rows) (int cols) startY startX sY)
                                      (offsets SEARCH_RADIUS_sel))
                             (offsets SEARCH_RADIUS_sel) ((- 1, - 1, False), None) =
           Inr (encodeSel (distanceSqFrom (startX, startY))
                  (nearestActive (grid gridData1) (grid gridData2) (startX, startY)))"
    using search_sel_result [OF g2, of startY startX 8]
    by (simp add: SEARCH_RADIUS_sel_def nearestActive_def l)
  show ?thesis
  proof (cases "referenceActive (grid gridData1) (startX, startY)")
    case False
    then show ?thesis unfolding unfold ref using t by simp
  next
    case True
    show ?thesis
    proof (cases "nearestActive (grid gridData1) (grid gridData2) (startX, startY)")
      case None
      then show ?thesis unfolding unfold ref s using True t by (simp add: encodeSel_def)
    next
      case (Some p)
      then show ?thesis unfolding unfold ref s using True t by (simp add: encodeSel_def)
    qed
  qed
qed

subsection \<open>Claim C2: \<open>trackMovementFromCenter\<close> reports the displacement to the nearest target cell\<close>

text \<open>
  C2, for two grids of the same dimensions with at least one row. When the reference
  cell, the centre of the viewport in grid coordinates, is not an active cell of the
  older grid (it holds 0 or lies outside the grid), \<open>trackMovementFromCenter\<close> writes
  \<^verbatim>\<open>"Keine Zieldaten am Fadenkreuz"\<close>. Otherwise it looks, in the part of the square
  of radius 8 around the reference cell that lies inside the grid, for the active cell
  of the newer grid at minimal squared Euclidean cell distance from the reference
  cell, the first such in row-major order (\<open>nearestActive\<close>); with no active cell in
  the window it writes \<^verbatim>\<open>"Bewegung unklar"\<close>, and otherwise it hands the displacement
  \<open>(matchX - refX, matchY - refY)\<close> to \<open>calculateSpeed\<close>.

  The restriction on the grids is needed for the same reason as in the averaging
  variant: \<^verbatim>\<open>grid1[0].length\<close> and \<^verbatim>\<open>grid2[newY][newX]\<close> are read unguarded.
\<close>

theorem trackMovementFromCenter_nearest:
  assumes g1: "gridShape rows cols (grid gridData1)" and g2: "gridShape rows cols (grid gridData2)"
    and r: "rows > 0"
  shows "trackMovementFromCenter h s gridData1 gridData2 =
         Inr (if \<not> referenceActive (grid gridData1) (referenceCell h) then setText KeineZieldaten s
              else (case nearestActive (grid gridData1) (grid gridData2) (referenceCell h) of
                      None \<Rightarrow> setText BewegungUnklar s
                    | Some p \<Rightarrow>
                        calculateSpeed_sel h s (fst p - fst (referenceCell h)) (snd p - snd (referenceCell h))
                          (timestamp gridData1) (timestamp gridData2)))"
  using g1 g2 r by (rule trackMovementFromCenter_refines)

theorem trackMovementFromCenter_nearest_witness:
  "gridShape 10 10 (grid targetOld) \<and> gridShape 10 10 (grid targetNew) \<and> (10 :: nat) > 0 \<and>
   referenceCell flatHost = (5, 5) \<and>
   nearestActive (grid targetOld) (grid targetNew) (5, 5) = Some (6, 5) \<and>
   trackMovementFromCenter flatHost (constructor (Some Dashes)) targetOld targetNew =
     Inr (calculateSpeed_sel flatHost (constructor (Some Dashes)) 1 0
            ''2024-01-01T00:00:00Z'' ''2024-01-01T00:05:00Z'') \<and>
   trackMovementFromCenter flatHost (constructor (Some Dashes)) targetOld targetGone =
     Inr (setText BewegungUnklar (constructor (Some Dashes))) \<and>
   trackMovementFromCenter flatHost (constructor (Some Dashes)) targetGone targetNew =
     Inr (setText KeineZieldaten (constructor (Some Dashes)))"
proof -
  have sh: "gridShape 10 10 (grid targetOld)" "gridShape 10 10 (grid targetNew)"
    "gridShape 10 10 (grid targetGone)"
    by (simp_all add: gridShape_def targetOld_def targetNew_def targetGone_def targetGrid_def)
  have pos: "(10 :: nat) > 0" by simp
  have rc: "referenceCell flatHost = (5, 5)" by code_simp
  have a1: "referenceActive (grid targetOld) (5, 5)" by code_simp
  have a2: "\<not> referenceActive (grid targetGone) (5, 5)" by code_simp
  have n1: "nearestActive (grid targetOld) (grid targetNew) (5, 5) = Some (6, 5)" by code_simp
  have n2: "nearestActive (grid targetOld) (grid targetGone) (5, 5) = None" by code_simp
  have t: "timestamp targetOld = ''2024-01-01T00:00:00Z''" "timestamp targetNew = ''2024-01-01T00:05:00Z''"
    by (simp_all add: targetOld_def targetNew_def)
  have r1: "trackMovementFromCenter flatHost (constructor (Some Dashes)) targetOld targetNew =
     Inr (calculateSpeed_sel flatHost (constructor (Some Dashes)) 1 0
            ''2024-01-01T00:00:00Z'' ''2024-01-01T00:05:00Z'')"
    using trackMovementFromCenter_nearest [OF sh(1) sh(2) pos, of flatHost "constructor (Some Dashes)"]
    by (simp add: rc a1 n1 t)
  have r2: "trackMovementFromCenter flatHost (constructor (Some Dashes)) targetOld targetGone =
     Inr (setText BewegungUnklar (constructor (Some Dashes)))"
    using trackMovementFromCenter_nearest [OF sh(1) sh(3) pos, of flatHost "constructor (Some Dashes)"]
    by (simp add: rc a1 n2)
  have r3: "trackMovementFromCenter flatHost (constructor (Some Dashes)) targetGone targetNew =
     Inr (setText KeineZieldaten (constructor (Some Dashes)))"
    using trackMovementFromCenter_nearest [OF sh(3) sh(2) pos, of flatHost "constructor (Some Dashes)"]
    by (simp add: rc a2)
  from sh pos rc n1 r1 r2 r3 show ?thesis by simp
qed

text \<open>
  C2 as first stated, for every pair of grids, fails: with an older grid of no rows the
  reference cell is not active, so the report would be \<^verbatim>\<open>"Keine Zieldaten am Fadenkreuz"\<close>,
  but \<open>trackMovementFromCenter\<close> throws; and with the target at the reference cell and
  a newer grid of one row, which has no active cell, it throws instead of writing
  \<^verbatim>\<open>"Bewegung unklar"\<close>.
\<close>

theorem trackMovementFromCenter_every_pair_counterexample:
  "trackMovementFromCenter flatHost (constructor (Some Dashes))
     \<lparr>timestamp = ''2024-01-01T00:00:00Z'', grid = []\<rparr>
     \<lparr>timestamp = ''2024-01-01T00:05:00Z'', grid = []\<rparr> = Inl TypeError \<and>
   trackMovementFromCenter flatHost (constructor (Some Dashes)) targetOld
     \<lparr>timestamp = ''2024-01-01T00:05:00Z'', grid = [[0, 0, 0, 0, 0, 0, 0, 0, 0, 0]]\<rparr> = Inl TypeError"
  by code_simp

section \<open>Facts about the speed calculator\<close>




subsection \<open>Claim C10: the three outcomes of \<open>calculateSpeed\<close>\<close>



section \<open>Facts about \<open>analyzeFrame\<close> and the frame history\<close>

lemma currentGrid_avg_code [code]:
  "currentGrid_avg lm img =
     makeGrid img (\<lambda>gridY gridX.
       let ranks = matchedRanks lm img gridY gridX
       in if real (length ranks) > real (GRID_SIZE * GRID_SIZE) / 10
          then real (sum_list ranks) / real (length ranks) else 0)"
  unfolding currentGrid_avg_def makeGrid_def Let_def
  by (intro map_cong refl) (simp add: cell_avg_ranks Let_def)

lemma currentGrid_sel_code [code]:
  "currentGrid_sel lm sel img =
     makeGrid img (\<lambda>gridY gridX.
       if real (targetCount lm sel img gridY gridX) > real (GRID_SIZE * GRID_SIZE) / 10 then 1 else 0)"
  unfolding currentGrid_sel_def makeGrid_def Let_def
  by (intro map_cong refl) (simp add: cell_sel_count)

text \<open>What the calls leave alone.\<close>

lemma setText_fields [simp]:
  "legendColorMap (setText t s) = legendColorMap s" "gridData (setText t s) = gridData s"
  "isEnabled (setText t s) = isEnabled s" "selectedColor (setText t s) = selectedColor s"
  "console (setText t s) = console s"
  by (simp_all add: setText_def split: option.splits)

lemma consoleLog_fields [simp]:
  "legendColorMap (consoleLog l s) = legendColorMap s" "gridData (consoleLog l s) = gridData s"
  "isEnabled (consoleLog l s) = isEnabled s" "selectedColor (consoleLog l s) = selectedColor s"
  "resultsElement (consoleLog l s) = resultsElement s"
  by (simp_all add: consoleLog_def)

lemma pushFrame_fields [simp]:
  "legendColorMap (pushFrame f s) = legendColorMap s" "isEnabled (pushFrame f s) = isEnabled s"
  "selectedColor (pushFrame f s) = selectedColor s" "resultsElement (pushFrame f s) = resultsElement s"
  "console (pushFrame f s) = console s"
  "gridData (pushFrame f s) = historyAfter (gridData s) f"
  by (simp_all add: pushFrame_def historyAfter_def Let_def)

lemma speedFromPixels_fields [simp]:
  "legendColorMap (speedFromPixels h s a b t1 t2) = legendColorMap s"
  "gridData (speedFromPixels h s a b t1 t2) = gridData s"
  "isEnabled (speedFromPixels h s a b t1 t2) = isEnabled s"
  "selectedColor (speedFromPixels h s a b t1 t2) = selectedColor s"
  by (simp_all add: speedFromPixels_def reportSpeed_def Let_def split: option.splits)

lemma calculateSpeed_fields [simp]:
  "legendColorMap (calculateSpeed_avg h s dx dy t1 t2) = legendColorMap s"
  "gridData (calculateSpeed_avg h s dx dy t1 t2) = gridData s"
  "isEnabled (calculateSpeed_avg h s dx dy t1 t2) = isEnabled s"
  "selectedColor (calculateSpeed_avg h s dx dy t1 t2) = selectedColor s"
  "legendColorMap (calculateSpeed_sel h s cx cy t1 t2) = legendColorMap s"
  "gridData (calculateSpeed_sel h s cx cy t1 t2) = gridData s"
  "isEnabled (calculateSpeed_sel h s cx cy t1 t2) = isEnabled s"
  "selectedColor (calculateSpeed_sel h s cx cy t1 t2) = selectedColor s"
  by (simp_all add: calculateSpeed_avg_def calculateSpeed_sel_def Let_def)

lemma trackMovement_fields:
  assumes "trackMovement h s a b = Inr s1"
  shows "legendColorMap s1 = legendColorMap s \<and> gridData s1 = gridData s \<and>
         isEnabled s1 = isEnabled s \<and> selectedColor s1 = selectedColor s"
  using assms
  by (auto simp: trackMovement_def Let_def split: option.splits sum.splits if_splits prod.splits)

lemma trackMovementFromCenter_fields:
  assumes "trackMovementFromCenter h s a b = Inr s1"
  shows "legendColorMap s1 = legendColorMap s \<and> gridData s1 = gridData s \<and>
         isEnabled s1 = isEnabled s \<and> selectedColor s1 = selectedColor s"
  using assms
  by (auto simp: trackMovementFromCenter_def Let_def split: option.splits sum.splits if_splits prod.splits)

lemma lastGridData_last:
  "lastGridData s = (if gridData s = [] then None else Some (last (gridData s)))"
  by (simp add: lastGridData_def last_conv_nth)

lemma analyzeFrame_avg_unfold:
  assumes "passes_avg s"
  shows "analyzeFrame_avg h s img ts =
     (if estimatorRuns s ts
      then (case trackMovement h s (last (gridData s)) (newFrame_avg s img ts) of
              Inl e \<Rightarrow> Inl e
            | Inr s1 \<Rightarrow> Inr (pushFrame (newFrame_avg s img ts) s1))
      else Inr (pushFrame (newFrame_avg s img ts) s))"
proof -
  have nf: "\<lparr>timestamp = ts, grid = currentGrid_avg (legendColorMap s) img\<rparr> = newFrame_avg s img ts"
    by (simp add: newFrame_avg_def)
  have g: "(\<not> isEnabled s \<or> legendColorMap s = None) = False" using assms by (simp add: passes_avg_def)
  have t: "timestamp (newFrame_avg s img ts) = ts" by (simp add: newFrame_avg_def)
  show ?thesis
    unfolding analyzeFrame_avg_def Let_def nf lastGridData_last t g
    by (simp add: estimatorRuns_def)
qed

lemma analyzeFrame_sel_unfold:
  assumes "passes_sel s"
  shows "analyzeFrame_sel h s img ts =
     (if estimatorRuns s ts
      then (case trackMovementFromCenter h s (last (gridData s)) (newFrame_sel s img ts) of
              Inl e \<Rightarrow> Inl e
            | Inr s1 \<Rightarrow> Inr (pushFrame (newFrame_sel s img ts) s1))
      else Inr (pushFrame (newFrame_sel s img ts) s))"
proof -
  from assms obtain sel where sel: "selectedColor s = Some sel" "sel \<noteq> []" "isEnabled s"
    by (auto simp: passes_sel_def)
  have nf: "\<lparr>timestamp = ts, grid = currentGrid_sel (legendColorMap s) sel img\<rparr> = newFrame_sel s img ts"
    by (simp add: newFrame_sel_def sel)
  have t: "timestamp (newFrame_sel s img ts) = ts" by (simp add: newFrame_sel_def)
  show ?thesis
    unfolding analyzeFrame_sel_def Let_def sel option.case nf lastGridData_last t
    using sel by (simp add: estimatorRuns_def)
qed

lemma analyzeFrame_avg_noop:
  "\<not> passes_avg s \<Longrightarrow> analyzeFrame_avg h s img ts = Inr s"
  by (auto simp: analyzeFrame_avg_def passes_avg_def)

lemma analyzeFrame_sel_noop:
  "\<not> passes_sel s \<Longrightarrow> analyzeFrame_sel h s img ts = Inr s"
  by (auto simp: analyzeFrame_sel_def passes_sel_def split: option.splits)

lemma analyzeFrame_avg_history:
  assumes "passes_avg s" "analyzeFrame_avg h s img ts = Inr s1"
  shows "gridData s1 = historyAfter (gridData s) (newFrame_avg s img ts) \<and>
         legendColorMap s1 = legendColorMap s \<and> isEnabled s1 = isEnabled s \<and>
         selectedColor s1 = selectedColor s"
proof (cases "estimatorRuns s ts")
  case False
  with assms show ?thesis by (auto simp: analyzeFrame_avg_unfold)
next
  case True
  with assms obtain s2 where t: "trackMovement h s (last (gridData s)) (newFrame_avg s img ts) = Inr s2"
    and s1: "s1 = pushFrame (newFrame_avg s img ts) s2"
    by (auto simp: analyzeFrame_avg_unfold split: sum.splits)
  from trackMovement_fields [OF t] s1 show ?thesis by simp
qed

lemma analyzeFrame_sel_history:
  assumes "passes_sel s" "analyzeFrame_sel h s img ts = Inr s1"
  shows "gridData s1 = historyAfter (gridData s) (newFrame_sel s img ts) \<and>
         legendColorMap s1 = legendColorMap s \<and> isEnabled s1 = isEnabled s \<and>
         selectedColor s1 = selectedColor s"
proof (cases "estimatorRuns s ts")
  case False
  with assms show ?thesis by (auto simp: analyzeFrame_sel_unfold)
next
  case True
  with assms obtain s2 where t: "trackMovementFromCenter h s (last (gridData s)) (newFrame_sel s img ts) = Inr s2"
    and s1: "s1 = pushFrame (newFrame_sel s img ts) s2"
    by (auto simp: analyzeFrame_sel_unfold split: sum.splits)
  from trackMovementFromCenter_fields [OF t] s1 show ?thesis by simp
qed

lemma newFrame_shape:
  "gridShape (height img div GRID_SIZE) (width img div GRID_SIZE) (grid (newFrame_avg s img ts))"
  "gridShape (height img div GRID_SIZE) (width img div GRID_SIZE) (grid (newFrame_sel s img ts))"
  using currentGrid_shape [of "legendColorMap s" img]
  by (simp_all add: gridShape_def newFrame_avg_def newFrame_sel_def currentGrid_shape)

lemma analyzeFrame_avg_returns:
  assumes "passes_avg s" "fits s img \<or> \<not> estimatorRuns s ts"
  shows "\<exists>s1. analyzeFrame_avg h s img ts = Inr s1"
proof (cases "estimatorRuns s ts")
  case False
  with assms show ?thesis by (simp add: analyzeFrame_avg_unfold)
next
  case True
  with assms have f: "fits s img" by simp
  then have "\<exists>s2. trackMovement h s (last (gridData s)) (newFrame_avg s img ts) = Inr s2"
    using trackMovement_refines [OF _ newFrame_shape(1) [of img s ts], of "last (gridData s)" h s]
    by (simp add: fits_def)
  with True assms show ?thesis by (auto simp: analyzeFrame_avg_unfold)
qed

lemma analyzeFrame_sel_returns:
  assumes "passes_sel s" "fits s img \<or> \<not> estimatorRuns s ts"
  shows "\<exists>s1. analyzeFrame_sel h s img ts = Inr s1"
proof (cases "estimatorRuns s ts")
  case False
  with assms show ?thesis by (simp add: analyzeFrame_sel_unfold)
next
  case True
  with assms have f: "fits s img" by simp
  then have "\<exists>s2. trackMovementFromCenter h s (last (gridData s)) (newFrame_sel s img ts) = Inr s2"
    using trackMovementFromCenter_refines [OF _ newFrame_shape(2) [of img s ts], of "last (gridData s)" h s]
    by (simp add: fits_def)
  with True assms show ?thesis by (auto simp: analyzeFrame_sel_unfold)
qed

lemma historyAfter_bound:
  assumes "length gd \<le> 10"
  shows "length (historyAfter gd f) \<le> 10 \<and>
         historyAfter gd f = drop (length gd + 1 - 10) (gd @ [f])"
proof (cases "length gd = 10")
  case True
  then have "historyAfter gd f = tl (gd @ [f])" by (simp add: historyAfter_def)
  moreover have "tl (gd @ [f]) = drop 1 (gd @ [f])" by (metis One_nat_def drop0 drop_Suc)
  ultimately show ?thesis using True by simp
next
  case False
  with assms have "length gd < 10" by simp
  then show ?thesis by (simp add: historyAfter_def)
qed

lemma finishLegend_fields:
  "gridData (fst (finishLegend s colors)) = gridData s \<and>
   isEnabled (fst (finishLegend s colors)) = isEnabled s \<and>
   selectedColor (fst (finishLegend s colors)) = selectedColor s \<and>
   resultsElement (fst (finishLegend s colors)) = resultsElement s"
  by (simp add: finishLegend_def Let_def)

lemma parseLegend_fields:
  "gridData (fst (parseLegend_avg s loaded)) = gridData s"
  "gridData (fst (parseLegend_sel s loaded)) = gridData s"
  by (cases loaded; simp add: parseLegend_avg_def parseLegend_sel_def finishLegend_fields Let_def)+

lemma reachable_bound: "reachable h s \<Longrightarrow> length (gridData s) \<le> 10"
proof (induction rule: reachable.induct)
  case (created el)
  show ?case by (simp add: constructor_def)
next
  case (enabled s b)
  then show ?case by (simp add: setAnalysisEnabled_def Let_def)
next
  case (selected s c)
  show ?case by (simp add: setSelectedColor_def)
next
  case (legend_avg s loaded)
  then show ?case by (simp add: parseLegend_fields)
next
  case (legend_sel s loaded)
  then show ?case by (simp add: parseLegend_fields)
next
  case (frame_avg s img ts s1)
  show ?case
  proof (cases "passes_avg s")
    case True
    from analyzeFrame_avg_history [OF True frame_avg.hyps(2)] historyAfter_bound [OF frame_avg.IH]
    show ?thesis by simp
  next
    case False
    with frame_avg show ?thesis by (simp add: analyzeFrame_avg_noop)
  qed
next
  case (frame_sel s img ts s1)
  show ?case
  proof (cases "passes_sel s")
    case True
    from analyzeFrame_sel_history [OF True frame_sel.hyps(2)] historyAfter_bound [OF frame_sel.IH]
    show ?thesis by simp
  next
    case False
    with frame_sel show ?thesis by (simp add: analyzeFrame_sel_noop)
  qed
qed

lemma finishLegend_NoColorsFound:
  assumes "snd (finishLegend s colors) = Inl NoColorsFound"
  shows "legendColorMap (fst (finishLegend s colors)) = Some []"
  using assms by (auto simp: finishLegend_def Let_def split: if_splits)

lemma parseLegend_NoColorsFound:
  "snd (parseLegend_avg s loaded) = Inl NoColorsFound \<Longrightarrow>
     legendColorMap (fst (parseLegend_avg s loaded)) = Some []"
  "snd (parseLegend_sel s loaded) = Inl NoColorsFound \<Longrightarrow>
     legendColorMap (fst (parseLegend_sel s loaded)) = Some []"
  by (cases loaded; simp add: parseLegend_avg_def parseLegend_sel_def finishLegend_NoColorsFound Let_def)+

lemma parseLegend_load_failed:
  "parseLegend_avg s None = (consoleLog LegendLoadFailed (consoleLog ParsingLegend s), Inl ImageLoadFailed)"
  "parseLegend_sel s None = (consoleLog LegendLoadFailed (consoleLog ParsingLegend s), Inl ImageLoadFailed)"
  by (simp_all add: parseLegend_avg_def parseLegend_sel_def)

lemma classify_no_table: "classify None p = None" "classify (Some []) p = None"
  by (simp_all add: classify_def findClosestLegendColor_def)

subsection \<open>Claim C9: the estimator runs exactly on a new timestamp\<close>

text \<open>
  C9. A call of \<open>analyzeFrame\<close> that passes the enabling precondition runs the motion
  estimator exactly when the history holds a previous entry whose timestamp differs
  from the new frame's (\<open>estimatorRuns\<close>): then the call is the estimator's call on the
  previous entry and the new record, followed by the append (or the estimator's
  exception); otherwise, in particular when the new frame's timestamp equals the most
  recent entry's, the call is the append alone, which changes neither the text of the
  results element nor the console: no estimate and no error.
\<close>

theorem estimator_runs_on_new_timestamp:
  "(passes_avg s \<longrightarrow>
      analyzeFrame_avg h s img ts =
        (if estimatorRuns s ts
         then (case trackMovement h s (last (gridData s)) (newFrame_avg s img ts) of
                 Inl e \<Rightarrow> Inl e
               | Inr s1 \<Rightarrow> Inr (pushFrame (newFrame_avg s img ts) s1))
         else Inr (pushFrame (newFrame_avg s img ts) s))) \<and>
   (passes_sel s \<longrightarrow>
      analyzeFrame_sel h s img ts =
        (if estimatorRuns s ts
         then (case trackMovementFromCenter h s (last (gridData s)) (newFrame_sel s img ts) of
                 Inl e \<Rightarrow> Inl e
               | Inr s1 \<Rightarrow> Inr (pushFrame (newFrame_sel s img ts) s1))
         else Inr (pushFrame (newFrame_sel s img ts) s))) \<and>
   resultsElement (pushFrame f s) = resultsElement s \<and> console (pushFrame f s) = console s"
  by (simp add: analyzeFrame_avg_unfold analyzeFrame_sel_unfold)

theorem estimator_runs_on_new_timestamp_witness:
  "passes_avg trackerHist_avg \<and> passes_sel trackerHist_sel \<and>
   \<not> estimatorRuns trackerHist_avg ''2024-01-01T00:00:00Z'' \<and>
   analyzeFrame_avg flatHost trackerHist_avg frameClear ''2024-01-01T00:00:00Z'' =
     Inr (pushFrame (newFrame_avg trackerHist_avg frameClear ''2024-01-01T00:00:00Z'') trackerHist_avg) \<and>
   analyzeFrame_sel flatHost trackerHist_sel frameClear ''2024-01-01T00:00:00Z'' =
     Inr (pushFrame (newFrame_sel trackerHist_sel frameClear ''2024-01-01T00:00:00Z'') trackerHist_sel) \<and>
   estimatorRuns trackerHist_avg ''2024-01-01T00:05:00Z'' \<and>
   analyzeFrame_avg flatHost trackerHist_avg frameClear ''2024-01-01T00:05:00Z'' =
     Inr (pushFrame (newFrame_avg trackerHist_avg frameClear ''2024-01-01T00:05:00Z'')
            (setText BewegungUnklar trackerHist_avg)) \<and>
   analyzeFrame_sel flatHost trackerHist_sel frameClear ''2024-01-01T00:05:00Z'' =
     Inr (pushFrame (newFrame_sel trackerHist_sel frameClear ''2024-01-01T00:05:00Z'')
            (setText KeineZieldaten trackerHist_sel))"
proof -
  have p: "passes_avg trackerHist_avg" "passes_sel trackerHist_sel" by code_simp+
  have e0: "\<not> estimatorRuns trackerHist_avg ''2024-01-01T00:00:00Z''"
    "\<not> estimatorRuns trackerHist_sel ''2024-01-01T00:00:00Z''" by code_simp+
  have e5: "estimatorRuns trackerHist_avg ''2024-01-01T00:05:00Z''"
    "estimatorRuns trackerHist_sel ''2024-01-01T00:05:00Z''" by code_simp+
  have ta: "trackMovement flatHost trackerHist_avg (last (gridData trackerHist_avg))
              (newFrame_avg trackerHist_avg frameClear ''2024-01-01T00:05:00Z'') =
            Inr (setText BewegungUnklar trackerHist_avg)" by code_simp
  have ts: "trackMovementFromCenter flatHost trackerHist_sel (last (gridData trackerHist_sel))
              (newFrame_sel trackerHist_sel frameClear ''2024-01-01T00:05:00Z'') =
            Inr (setText KeineZieldaten trackerHist_sel)" by code_simp
  note a0 = estimator_runs_on_new_timestamp
    [where s = trackerHist_avg and h = flatHost and img = frameClear and ts = "''2024-01-01T00:00:00Z''"]
  note a5 = estimator_runs_on_new_timestamp
    [where s = trackerHist_avg and h = flatHost and img = frameClear and ts = "''2024-01-01T00:05:00Z''"]
  note s0 = estimator_runs_on_new_timestamp
    [where s = trackerHist_sel and h = flatHost and img = frameClear and ts = "''2024-01-01T00:00:00Z''"]
  note s5 = estimator_runs_on_new_timestamp
    [where s = trackerHist_sel and h = flatHost and img = frameClear and ts = "''2024-01-01T00:05:00Z''"]
  from a0 a5 s0 s5 p e0 e5 ta ts show ?thesis by simp
qed

subsection \<open>Claim C8: one record appended per call, at most 10 kept\<close>

text \<open>
  C8, for calls of \<open>analyzeFrame\<close> that pass the enabling precondition. A call that
  returns has appended exactly one record, the new frame's, and then dropped the oldest
  record if and only if the length exceeded 10 (\<open>historyAfter\<close>); that is so also when
  the new frame's timestamp equals the previous entry's. The call returns whenever the
  estimator does not run, and whenever the new frame's grid has the dimensions of the
  most recent entry's grid and at least one row (\<open>fits\<close>). A history of at most 10
  records stays at most 10 records long and is the end of the old history followed by
  the new record: eviction is first in, first out, and the records stay in the order
  they were inserted. No tracker that calls can produce holds more than 10 records.
\<close>

theorem history_append_evict:
  "(passes_avg s \<longrightarrow>
      (\<forall>s1. analyzeFrame_avg h s img ts = Inr s1 \<longrightarrow>
         gridData s1 = historyAfter (gridData s) (newFrame_avg s img ts)) \<and>
      (fits s img \<or> \<not> estimatorRuns s ts \<longrightarrow> (\<exists>s1. analyzeFrame_avg h s img ts = Inr s1))) \<and>
   (passes_sel s \<longrightarrow>
      (\<forall>s1. analyzeFrame_sel h s img ts = Inr s1 \<longrightarrow>
         gridData s1 = historyAfter (gridData s) (newFrame_sel s img ts)) \<and>
      (fits s img \<or> \<not> estimatorRuns s ts \<longrightarrow> (\<exists>s1. analyzeFrame_sel h s img ts = Inr s1))) \<and>
   (length gd \<le> 10 \<longrightarrow>
      length (historyAfter gd f) \<le> 10 \<and> historyAfter gd f = drop (length gd + 1 - 10) (gd @ [f])) \<and>
   (reachable h s \<longrightarrow> length (gridData s) \<le> 10)"
  using analyzeFrame_avg_history [of s h img ts] analyzeFrame_avg_returns [of s img ts h]
    analyzeFrame_sel_history [of s h img ts] analyzeFrame_sel_returns [of s img ts h]
    historyAfter_bound [of gd f] reachable_bound [of h s]
  by blast

theorem history_append_evict_witness:
  "passes_avg trackerHist_avg \<and> passes_sel trackerHist_sel \<and>
   fits trackerHist_avg frameClear \<and> fits trackerHist_sel frameClear \<and>
   (\<exists>s1. analyzeFrame_avg flatHost trackerHist_avg frameClear ''2024-01-01T00:05:00Z'' = Inr s1 \<and>
      gridData s1 = [oneCell, newFrame_avg trackerHist_avg frameClear ''2024-01-01T00:05:00Z'']) \<and>
   (\<exists>s1. analyzeFrame_sel flatHost trackerHist_sel frameClear ''2024-01-01T00:00:00Z'' = Inr s1 \<and>
      gridData s1 = [oneCell, newFrame_sel trackerHist_sel frameClear ''2024-01-01T00:00:00Z'']) \<and>
   length (map stamp [0 ..< 10]) \<le> 10 \<and>
   historyAfter (map stamp [0 ..< 10]) (stamp 10) = map stamp [1 ..< 11] \<and>
   length (historyAfter (map stamp [0 ..< 10]) (stamp 10)) \<le> 10 \<and>
   reachable flatHost trackerBGR \<and> length (gridData trackerBGR) \<le> 10"
proof -
  have p: "passes_avg trackerHist_avg" "passes_sel trackerHist_sel" by code_simp+
  have f: "fits trackerHist_avg frameClear" "fits trackerHist_sel frameClear" by code_simp+
  have g: "gridData trackerHist_avg = [oneCell]" "gridData trackerHist_sel = [oneCell]"
    by (simp_all add: trackerHist_avg_def trackerHist_sel_def)
  note a = history_append_evict
    [where s = trackerHist_avg and h = flatHost and img = frameClear and ts = "''2024-01-01T00:05:00Z''"
       and gd = "map stamp [0 ..< 10]" and f = "stamp 10"]
  note s = history_append_evict
    [where s = trackerHist_sel and h = flatHost and img = frameClear and ts = "''2024-01-01T00:00:00Z''"
       and gd = "map stamp [0 ..< 10]" and f = "stamp 10"]
  note r = history_append_evict
    [where s = trackerBGR and h = flatHost and img = frameClear and ts = "''2024-01-01T00:00:00Z''"
       and gd = "[]" and f = "stamp 10"]
  have ra: "\<exists>s1. analyzeFrame_avg flatHost trackerHist_avg frameClear ''2024-01-01T00:05:00Z'' = Inr s1 \<and>
      gridData s1 = [oneCell, newFrame_avg trackerHist_avg frameClear ''2024-01-01T00:05:00Z'']"
  proof -
    from a p f obtain s1 where s1: "analyzeFrame_avg flatHost trackerHist_avg frameClear ''2024-01-01T00:05:00Z'' = Inr s1"
      by blast
    with a p have "gridData s1 = historyAfter (gridData trackerHist_avg)
        (newFrame_avg trackerHist_avg frameClear ''2024-01-01T00:05:00Z'')" by blast
    then have "gridData s1 = [oneCell, newFrame_avg trackerHist_avg frameClear ''2024-01-01T00:05:00Z'']"
      by (simp add: g historyAfter_def)
    with s1 show ?thesis by blast
  qed
  have rs: "\<exists>s1. analyzeFrame_sel flatHost trackerHist_sel frameClear ''2024-01-01T00:00:00Z'' = Inr s1 \<and>
      gridData s1 = [oneCell, newFrame_sel trackerHist_sel frameClear ''2024-01-01T00:00:00Z'']"
  proof -
    from s p f obtain s1 where s1: "analyzeFrame_sel flatHost trackerHist_sel frameClear ''2024-01-01T00:00:00Z'' = Inr s1"
      by blast
    with s p have "gridData s1 = historyAfter (gridData trackerHist_sel)
        (newFrame_sel trackerHist_sel frameClear ''2024-01-01T00:00:00Z'')" by blast
    then have "gridData s1 = [oneCell, newFrame_sel trackerHist_sel frameClear ''2024-01-01T00:00:00Z'']"
      by (simp add: g historyAfter_def)
    with s1 show ?thesis by blast
  qed
  have l: "length (map stamp [0 ..< 10]) \<le> 10" by simp
  have ev: "historyAfter (map stamp [0 ..< 10]) (stamp 10) = map stamp [1 ..< 11]" by code_simp
  from a l have b: "length (historyAfter (map stamp [0 ..< 10]) (stamp 10)) \<le> 10" by blast
  have re: "reachable flatHost trackerBGR"
    unfolding trackerBGR_def by (intro reachable.enabled reachable.legend_avg reachable.created)
  with r have rb: "length (gridData trackerBGR) \<le> 10" by blast
  from p f ra rs l ev b re rb show ?thesis by blast
qed

text \<open>
  C8 as first stated, for every call that passes the enabling precondition, fails: after
  a frame too low for one row of cells the history ends in an empty grid, and the next
  call with a new timestamp passes the precondition, throws in the estimator and
  appends nothing.
\<close>

theorem history_every_call_counterexample:
  "analyzeFrame_avg flatHost trackerBGR frameLow ''2024-01-01T00:00:00Z'' =
     Inr (pushFrame \<lparr>timestamp = ''2024-01-01T00:00:00Z'', grid = []\<rparr> trackerBGR) \<and>
   passes_avg (pushFrame \<lparr>timestamp = ''2024-01-01T00:00:00Z'', grid = []\<rparr> trackerBGR) \<and>
   analyzeFrame_avg flatHost (pushFrame \<lparr>timestamp = ''2024-01-01T00:00:00Z'', grid = []\<rparr> trackerBGR)
     frameLow ''2024-01-01T00:05:00Z'' = Inl TypeError"
  by code_simp

subsection \<open>Claim C5: when \<open>analyzeFrame\<close> does nothing\<close>

text \<open>
  C5, as the code has it. \<open>analyzeFrame\<close> returns with the tracker exactly as it was
  (no grid, no record appended, no estimate, no text and no console line) when analysis
  is disabled, when, in the averaging variant, no colour table has been assigned yet
  (\<open>legendColorMap\<close> is \<^verbatim>\<open>null\<close>), and when, in the single-target variant, no target
  colour is selected (\<open>selectedColor\<close> is \<^verbatim>\<open>null\<close> or the empty string).
\<close>

theorem analyzeFrame_noop:
  "(\<not> isEnabled s \<or> legendColorMap s = None \<longrightarrow> analyzeFrame_avg h s img ts = Inr s) \<and>
   (\<not> isEnabled s \<or> selectedColor s = None \<or> selectedColor s = Some [] \<longrightarrow>
      analyzeFrame_sel h s img ts = Inr s)"
  using analyzeFrame_avg_noop [of s h img ts] analyzeFrame_sel_noop [of s h img ts]
  by (auto simp: passes_avg_def passes_sel_def)

theorem analyzeFrame_noop_witness:
  "\<not> isEnabled (constructor (Some Dashes)) \<and> legendColorMap (setAnalysisEnabled True (constructor (Some Dashes))) = None \<and>
   selectedColor trackerBGR = None \<and>
   analyzeFrame_avg flatHost (constructor (Some Dashes)) frameClear ''2024-01-01T00:00:00Z'' =
     Inr (constructor (Some Dashes)) \<and>
   analyzeFrame_avg flatHost (setAnalysisEnabled True (constructor (Some Dashes))) frameClear ''2024-01-01T00:00:00Z'' =
     Inr (setAnalysisEnabled True (constructor (Some Dashes))) \<and>
   analyzeFrame_sel flatHost trackerBGR frameClear ''2024-01-01T00:00:00Z'' = Inr trackerBGR"
proof -
  have a: "\<not> isEnabled (constructor (Some Dashes))" by (simp add: constructor_def)
  have b: "legendColorMap (setAnalysisEnabled True (constructor (Some Dashes))) = None"
    by (simp add: constructor_def setAnalysisEnabled_def Let_def)
  have c: "selectedColor trackerBGR = None" by code_simp
  note n1 = analyzeFrame_noop [where s = "constructor (Some Dashes)" and h = flatHost and img = frameClear
      and ts = "''2024-01-01T00:00:00Z''"]
  note n2 = analyzeFrame_noop [where s = "setAnalysisEnabled True (constructor (Some Dashes))" and h = flatHost
      and img = frameClear and ts = "''2024-01-01T00:00:00Z''"]
  note n3 = analyzeFrame_noop [where s = trackerBGR and h = flatHost and img = frameClear
      and ts = "''2024-01-01T00:00:00Z''"]
  from n1 n2 n3 a b c show ?thesis by blast
qed

text \<open>
  C5 as first stated, for an empty colour table, fails: the guard of the averaging
  variant tests \<open>legendColorMap\<close> for \<^verbatim>\<open>null\<close> only. After a legend parse that found
  no colours the table is an empty Map; \<open>analyzeFrame\<close> then builds a grid of zeros and
  appends it, and on the next frame the estimator writes \<^verbatim>\<open>"Bewegung unklar"\<close>.
\<close>

theorem analyzeFrame_empty_table_counterexample:
  "isEnabled trackerNoColors \<and> legendColorMap trackerNoColors = Some [] \<and> gridData trackerNoColors = [] \<and>
   resultsElement trackerNoColors = Some Dashes \<and>
   analyzeFrame_avg flatHost trackerNoColors frameClear ''2024-01-01T00:00:00Z'' =
     Inr (pushFrame \<lparr>timestamp = ''2024-01-01T00:00:00Z'', grid = [[0]]\<rparr> trackerNoColors) \<and>
   analyzeFrame_avg flatHost (pushFrame \<lparr>timestamp = ''2024-01-01T00:00:00Z'', grid = [[0]]\<rparr> trackerNoColors)
     frameClear ''2024-01-01T00:05:00Z'' =
     Inr (pushFrame \<lparr>timestamp = ''2024-01-01T00:05:00Z'', grid = [[0]]\<rparr>
            (setText BewegungUnklar
               (pushFrame \<lparr>timestamp = ''2024-01-01T00:00:00Z'', grid = [[0]]\<rparr> trackerNoColors))) \<and>
   gridData (pushFrame \<lparr>timestamp = ''2024-01-01T00:00:00Z'', grid = [[0]]\<rparr> trackerNoColors) =
     [\<lparr>timestamp = ''2024-01-01T00:00:00Z'', grid = [[0]]\<rparr>]"
  by code_simp

subsection \<open>Claim C4: what a failure leaves behind\<close>

text \<open>
  C4, as the code has it. No call of \<open>parseLegend\<close> touches the frame history. A
  legend that fails to load leaves the colour table as it was. A legend parse that ends
  in \<open>NoColorsFound\<close> has replaced the colour table by the empty table, with which
  every pixel classifies as nothing. The motion estimators change neither the colour
  table nor the frame history, whatever they report (a displacement, ambiguous motion,
  no target at the reference, or, for a stale or duplicate timestamp, nothing). A call
  of \<open>analyzeFrame\<close> that returns leaves the colour table alone and has appended the
  new frame's record in the same way whatever the estimator reported.
\<close>

theorem failures_are_local:
  "gridData (fst (parseLegend_avg s loaded)) = gridData s \<and>
   gridData (fst (parseLegend_sel s loaded)) = gridData s \<and>
   legendColorMap (fst (parseLegend_avg s None)) = legendColorMap s \<and>
   legendColorMap (fst (parseLegend_sel s None)) = legendColorMap s \<and>
   (snd (parseLegend_avg s loaded) = Inl NoColorsFound \<longrightarrow>
      legendColorMap (fst (parseLegend_avg s loaded)) = Some [] \<and>
      classify (legendColorMap (fst (parseLegend_avg s loaded))) p = None) \<and>
   (snd (parseLegend_sel s loaded) = Inl NoColorsFound \<longrightarrow>
      legendColorMap (fst (parseLegend_sel s loaded)) = Some [] \<and>
      classify (legendColorMap (fst (parseLegend_sel s loaded))) p = None) \<and>
   (trackMovement h s a b = Inr s1 \<longrightarrow>
      legendColorMap s1 = legendColorMap s \<and> gridData s1 = gridData s) \<and>
   (trackMovementFromCenter h s a b = Inr s1 \<longrightarrow>
      legendColorMap s1 = legendColorMap s \<and> gridData s1 = gridData s) \<and>
   (passes_avg s \<and> analyzeFrame_avg h s img ts = Inr s2 \<longrightarrow>
      legendColorMap s2 = legendColorMap s \<and>
      gridData s2 = historyAfter (gridData s) (newFrame_avg s img ts)) \<and>
   (passes_sel s \<and> analyzeFrame_sel h s img ts = Inr s2 \<longrightarrow>
      legendColorMap s2 = legendColorMap s \<and>
      gridData s2 = historyAfter (gridData s) (newFrame_sel s img ts))"
  using parseLegend_fields [of s loaded] parseLegend_NoColorsFound [of s loaded]
    trackMovement_fields [of h s a b s1] trackMovementFromCenter_fields [of h s a b s1]
    analyzeFrame_avg_history [of s h img ts s2] analyzeFrame_sel_history [of s h img ts s2]
  by (simp add: parseLegend_load_failed classify_no_table)

theorem failures_are_local_witness:
  "snd (parseLegend_avg trackerHist_avg (Some legendBlank)) = Inl NoColorsFound \<and>
   gridData (fst (parseLegend_avg trackerHist_avg (Some legendBlank))) = [oneCell] \<and>
   legendColorMap (fst (parseLegend_avg trackerHist_avg (Some legendBlank))) = Some [] \<and>
   classify (legendColorMap (fst (parseLegend_avg trackerHist_avg (Some legendBlank)))) (0, 0, 255) = None \<and>
   snd (parseLegend_sel trackerHist_sel (Some legendBlank)) = Inl NoColorsFound \<and>
   legendColorMap (fst (parseLegend_sel trackerHist_sel (Some legendBlank))) = Some [] \<and>
   legendColorMap (fst (parseLegend_avg trackerHist_avg None)) = Some tableBGR \<and>
   trackMovement flatHost trackerHist_avg stripOld stripNew = Inr (setText BewegungUnklar trackerHist_avg) \<and>
   gridData (setText BewegungUnklar trackerHist_avg) = [oneCell] \<and>
   legendColorMap (setText BewegungUnklar trackerHist_avg) = Some tableBGR \<and>
   trackMovementFromCenter flatHost trackerHist_sel targetGone targetNew =
     Inr (setText KeineZieldaten trackerHist_sel) \<and>
   gridData (setText KeineZieldaten trackerHist_sel) = [oneCell] \<and>
   passes_avg trackerHist_avg \<and>
   analyzeFrame_avg flatHost trackerHist_avg frameClear ''2024-01-01T00:05:00Z'' =
     Inr (pushFrame (newFrame_avg trackerHist_avg frameClear ''2024-01-01T00:05:00Z'')
            (setText BewegungUnklar trackerHist_avg)) \<and>
   gridData (pushFrame (newFrame_avg trackerHist_avg frameClear ''2024-01-01T00:05:00Z'')
            (setText BewegungUnklar trackerHist_avg)) =
     historyAfter [oneCell] (newFrame_avg trackerHist_avg frameClear ''2024-01-01T00:05:00Z'')"
proof -
  let ?new = "newFrame_avg trackerHist_avg frameClear ''2024-01-01T00:05:00Z''"
  have n1: "snd (parseLegend_avg trackerHist_avg (Some legendBlank)) = Inl NoColorsFound" by code_simp
  have n2: "snd (parseLegend_sel trackerHist_sel (Some legendBlank)) = Inl NoColorsFound" by code_simp
  have g: "gridData trackerHist_avg = [oneCell]" "gridData trackerHist_sel = [oneCell]"
    by (simp_all add: trackerHist_avg_def trackerHist_sel_def)
  have lm: "legendColorMap trackerHist_avg = Some tableBGR" by code_simp
  have t1: "trackMovement flatHost trackerHist_avg stripOld stripNew = Inr (setText BewegungUnklar trackerHist_avg)"
    by code_simp
  have t2: "trackMovementFromCenter flatHost trackerHist_sel targetGone targetNew =
     Inr (setText KeineZieldaten trackerHist_sel)" by code_simp
  have p: "passes_avg trackerHist_avg" by code_simp
  have af: "analyzeFrame_avg flatHost trackerHist_avg frameClear ''2024-01-01T00:05:00Z'' =
     Inr (pushFrame ?new (setText BewegungUnklar trackerHist_avg))" by code_simp
  note la = failures_are_local [where s = trackerHist_avg and loaded = "Some legendBlank" and p = "(0, 0, 255)"
      and h = flatHost and a = stripOld and b = stripNew and ?s1.0 = "setText BewegungUnklar trackerHist_avg"
      and img = frameClear and ts = "''2024-01-01T00:05:00Z''"
      and ?s2.0 = "pushFrame ?new (setText BewegungUnklar trackerHist_avg)"]
  note ls = failures_are_local [where s = trackerHist_sel and loaded = "Some legendBlank" and p = "(0, 0, 255)"
      and h = flatHost and a = targetGone and b = targetNew and ?s1.0 = "setText KeineZieldaten trackerHist_sel"
      and img = frameClear and ts = "''2024-01-01T00:05:00Z''"]
  have c1: "gridData (fst (parseLegend_avg trackerHist_avg (Some legendBlank))) = [oneCell]"
    using la g by simp
  have c2: "legendColorMap (fst (parseLegend_avg trackerHist_avg (Some legendBlank))) = Some []"
    "classify (legendColorMap (fst (parseLegend_avg trackerHist_avg (Some legendBlank)))) (0, 0, 255) = None"
    using la n1 by blast+
  have c3: "legendColorMap (fst (parseLegend_sel trackerHist_sel (Some legendBlank))) = Some []"
    using ls n2 by blast
  have c4: "legendColorMap (fst (parseLegend_avg trackerHist_avg None)) = Some tableBGR"
    using la lm by simp
  have c5: "gridData (setText BewegungUnklar trackerHist_avg) = [oneCell]"
    "legendColorMap (setText BewegungUnklar trackerHist_avg) = Some tableBGR"
    using la t1 g lm by simp_all
  have c6: "gridData (setText KeineZieldaten trackerHist_sel) = [oneCell]"
    using ls t2 g by simp
  have c7: "gridData (pushFrame ?new (setText BewegungUnklar trackerHist_avg)) = historyAfter [oneCell] ?new"
    using la p af g by simp
  from n1 c1 c2 n2 c3 c4 t1 c5 t2 c6 p af c7 show ?thesis by simp
qed

text \<open>
  C4 as first stated fails in its last part: a re-parse that ends in \<open>NoColorsFound\<close>
  does not leave the previously built table intact. \<open>parseLegend\<close> assigns the new,
  empty Map to \<open>legendColorMap\<close> before it looks at its size.
\<close>

theorem failed_reparse_counterexample:
  "legendColorMap trackerBGR = Some tableBGR \<and> classify (legendColorMap trackerBGR) (0, 0, 255) = Some 1 \<and>
   snd (parseLegend_avg trackerBGR (Some legendBlank)) = Inl NoColorsFound \<and>
   legendColorMap (fst (parseLegend_avg trackerBGR (Some legendBlank))) = Some [] \<and>
   classify (legendColorMap (fst (parseLegend_avg trackerBGR (Some legendBlank)))) (0, 0, 255) = None \<and>
   snd (parseLegend_sel trackerBGR (Some legendBlank)) = Inl NoColorsFound \<and>
   legendColorMap (fst (parseLegend_sel trackerBGR (Some legendBlank))) = Some []"
  by code_simp


end
